theory Spec2Isabelle
  imports Main
begin

section \<open>JavaScript values and string operations\<close>

text \<open>
  A value thrown by JavaScript code is either an instance of \<open>Error\<close>, which carries a
  message, or any other value. The gateway code tests \<open>instanceof Error\<close> and reads
  \<open>.message\<close>, so both kinds are kept apart.
\<close>

datatype js_error = Error string | Thrown string

type_synonym 'a result = "js_error + 'a"

text \<open>\<open>String.prototype.startsWith\<close> and \<open>String.prototype.includes\<close> (named \<open>includes_js\<close>).\<close>

definition startsWith :: "string \<Rightarrow> string \<Rightarrow> bool" where
  "startsWith s p = (take (length p) s = p)"

fun includes_js :: "string \<Rightarrow> string \<Rightarrow> bool" where
  "includes_js [] sub = (sub = [])"
| "includes_js (c # cs) sub = (startsWith (c # cs) sub \<or> includes_js cs sub)"

section \<open>The sandbox capability (src/gateway/process.ts)\<close>

text \<open>
  \<open>Process\<close> of the sandbox SDK, with the three properties the code reads. The property
  \<open>id\<close> is named \<open>id_proc\<close> here, since \<open>id\<close> is the identity function of HOL.
\<close>

record process =
  id_proc :: string
  command :: string
  status :: string

record logs =
  stdout :: string
  stderr :: string

text \<open>The arguments of a \<open>console.log\<close> or \<open>console.error\<close> call.\<close>

datatype arg = S string | N nat | E js_error | L "string list"

text \<open>
  Everything the code does to the outside is recorded, in order, as an event: the calls on
  the sandbox and on process handles (with their arguments), the timer, and the console
  output.
\<close>

datatype event =
    MountR2Storage
  | ListProcesses
  | WaitForPort process nat string nat
  | Kill process
  | StartProcess string "(string \<times> string) list option"
  | GetLogs process
  | SetTimeout nat
  | ConsoleLog "arg list"
  | ConsoleError "arg list"

text \<open>
  The sandbox is a remote host whose state \<open>'w\<close> the code cannot see: every awaited call
  receives the host's state, answers with a value or a thrown error, and leaves the host in
  a new state. \<open>waitForPort\<close> takes the port, the mode and the timeout; \<open>startProcess\<close>
  takes the command and the \<open>env\<close> option (\<open>None\<close> for \<open>undefined\<close>).
\<close>

record 'w sandbox =
  listProcesses :: "'w \<Rightarrow> process list result \<times> 'w"
  startProcess :: "string \<Rightarrow> (string \<times> string) list option \<Rightarrow> 'w \<Rightarrow> process result \<times> 'w"
  waitForPort :: "process \<Rightarrow> nat \<Rightarrow> string \<Rightarrow> nat \<Rightarrow> 'w \<Rightarrow> unit result \<times> 'w"
  kill :: "process \<Rightarrow> 'w \<Rightarrow> unit result \<times> 'w"
  getLogs :: "process \<Rightarrow> 'w \<Rightarrow> logs result \<times> 'w"

text \<open>
  \<open>MoltbotEnv\<close> (src/types), with the bindings the two source files read.
\<close>

record moltbot_env =
  DEV_MODE :: "string option"
  E2E_TEST_MODE :: "string option"
  CF_ACCESS_TEAM_DOMAIN :: "string option"
  CF_ACCESS_AUD :: "string option"
  BASIC_AUTH_USER :: "string option"
  BASIC_AUTH_PASS :: "string option"

text \<open>
  What process.ts imports from modules that are not part of the sources at hand, taken as
  parameters: the constants \<open>MOLTBOT_PORT\<close> and \<open>STARTUP_TIMEOUT_MS\<close> of src/config, the
  function \<open>buildEnvVars\<close> of src/gateway/env (its result as a list of key-value pairs) and
  \<open>mountR2Storage\<close> of src/gateway/r2 (an awaited call on the host). \<open>setTimeout\<close> is the
  passing of the given number of milliseconds on the host.
\<close>

record 'w ambient =
  MOLTBOT_PORT :: nat
  STARTUP_TIMEOUT_MS :: nat
  buildEnvVars :: "moltbot_env \<Rightarrow> (string \<times> string) list"
  mountR2Storage :: "moltbot_env \<Rightarrow> 'w \<Rightarrow> bool result \<times> 'w"
  setTimeout :: "nat \<Rightarrow> 'w \<Rightarrow> 'w"

text \<open>The state threaded through the code: the host's state and the events so far.\<close>

type_synonym 'w st = "'w \<times> event list"

definition emit :: "event \<Rightarrow> 'w st \<Rightarrow> 'w st" where
  "emit ev s = (fst s, snd s @ [ev])"

definition call :: "event \<Rightarrow> ('w \<Rightarrow> 'a \<times> 'w) \<Rightarrow> 'w st \<Rightarrow> 'a \<times> 'w st" where
  "call ev f s = (case f (fst s) of (r, w') \<Rightarrow> (r, (w', snd s @ [ev])))"

subsection \<open>findExistingMoltbotProcess\<close>

definition isGatewayProcess :: "process \<Rightarrow> bool" where
  "isGatewayProcess proc =
     (includes_js (command proc) ''start-moltbot.sh'' \<or> includes_js (command proc) ''clawdbot gateway'')"

definition isCliCommand :: "process \<Rightarrow> bool" where
  "isCliCommand proc =
     (includes_js (command proc) ''clawdbot devices'' \<or> includes_js (command proc) ''clawdbot --version'')"

text \<open>The \<open>for (const proc of processes)\<close> loop of lines 16 to 31.\<close>

fun findExisting_loop :: "process list \<Rightarrow> process option" where
  "findExisting_loop [] = None"
| "findExisting_loop (proc # processes) =
     (if isGatewayProcess proc \<and> \<not> isCliCommand proc
      then (if status proc = ''starting'' \<or> status proc = ''running''
            then Some proc
            else findExisting_loop processes)
      else findExisting_loop processes)"

definition findExistingMoltbotProcess :: "'w sandbox \<Rightarrow> 'w st \<Rightarrow> process option \<times> 'w st" where
  "findExistingMoltbotProcess sandbox s =
     (case call ListProcesses (listProcesses sandbox) s of
        (Inr processes, s1) \<Rightarrow> (findExisting_loop processes, s1)
      | (Inl e, s1) \<Rightarrow> (None, emit (ConsoleLog [S ''Could not list processes:'', E e]) s1))"

subsection \<open>ensureMoltbotGateway\<close>

definition gatewayCommand :: string where
  "gatewayCommand =
     ''bash -c \"/usr/local/bin/start-moltbot.sh > /tmp/moltbot-startup.log 2>&1\"''"

definition readLogCommand :: string where
  "readLogCommand = ''cat /tmp/moltbot-startup.log''"

text \<open>
  Lines 53 to 77: mount, discovery and the wait on an existing process. The result is
  \<open>Some r\<close> when the function is left here (\<open>Inr\<close> a returned process, \<open>Inl\<close> a thrown
  error) and \<open>None\<close> when execution falls through to line 79.
\<close>

definition reuseExisting ::
  "'w ambient \<Rightarrow> 'w sandbox \<Rightarrow> moltbot_env \<Rightarrow> 'w st \<Rightarrow> process result option \<times> 'w st" where
  "reuseExisting am sandbox env s0 =
     (case call MountR2Storage (mountR2Storage am env) s0 of
        (Inl mountErr, s1) \<Rightarrow> (Some (Inl mountErr), s1)
      | (Inr _, s1) \<Rightarrow>
         (case findExistingMoltbotProcess sandbox s1 of
            (None, s2) \<Rightarrow> (None, s2)
          | (Some existingProcess, s2) \<Rightarrow>
             (let s3 = emit (ConsoleLog [S ''Found existing Moltbot process:'',
                                         S (id_proc existingProcess), S ''status:'',
                                         S (status existingProcess)]) s2;
                  s4 = emit (ConsoleLog [S ''Waiting for Moltbot gateway on port'',
                                         N (MOLTBOT_PORT am), S ''timeout:'',
                                         N (STARTUP_TIMEOUT_MS am)]) s3
              in case call (WaitForPort existingProcess (MOLTBOT_PORT am) ''tcp'' (STARTUP_TIMEOUT_MS am))
                           (waitForPort sandbox existingProcess (MOLTBOT_PORT am) ''tcp''
                              (STARTUP_TIMEOUT_MS am)) s4 of
                   (Inr _, s5) \<Rightarrow>
                     (Some (Inr existingProcess),
                      emit (ConsoleLog [S ''Moltbot gateway is reachable'']) s5)
                 | (Inl e, s5) \<Rightarrow>
                     (let s6 = emit (ConsoleLog
                                 [S ''Existing process not reachable after full timeout, killing and restarting...'']) s5
                      in case call (Kill existingProcess) (kill sandbox existingProcess) s6 of
                           (Inr _, s7) \<Rightarrow> (None, s7)
                         | (Inl killError, s7) \<Rightarrow>
                             (None, emit (ConsoleLog [S ''Failed to kill process:'', E killError]) s7)))))"

text \<open>
  The handler of lines 119 to 125: \<open>logErr\<close> is rethrown when it is an \<open>Error\<close> whose
  message starts with the marker, otherwise it is logged and \<open>e\<close> is thrown.
\<close>

definition isGatewayFailure :: "js_error \<Rightarrow> bool" where
  "isGatewayFailure logErr =
     (case logErr of Error message \<Rightarrow> startsWith message ''Moltbot gateway failed''
                   | Thrown _ \<Rightarrow> False)"

definition catchLogErr :: "js_error \<Rightarrow> js_error \<Rightarrow> 'w st \<Rightarrow> js_error \<times> 'w st" where
  "catchLogErr e logErr s =
     (if isGatewayFailure logErr then (logErr, s)
      else (e, emit (ConsoleError [S ''[Gateway] Failed to read log file:'', E logErr]) s))"

definition fullLogOf :: "logs \<Rightarrow> string" where
  "fullLogOf logContent =
     (if stdout logContent \<noteq> [] then stdout logContent
      else if stderr logContent \<noteq> [] then stderr logContent
      else ''(no log output)'')"

text \<open>
  The handler of lines 108 to 126, entered with the error \<open>e\<close> thrown by line 102 or by
  line 105. It always throws; the result is the error thrown.
\<close>

definition readStartupLog ::
  "'w ambient \<Rightarrow> 'w sandbox \<Rightarrow> js_error \<Rightarrow> 'w st \<Rightarrow> js_error \<times> 'w st" where
  "readStartupLog am sandbox e s =
     (let s1 = emit (ConsoleError [S ''[Gateway] waitForPort failed:'', E e]) s
      in case call (StartProcess readLogCommand None)
                   (startProcess sandbox readLogCommand None) s1 of
           (Inl logErr, s2) \<Rightarrow> catchLogErr e logErr s2
         | (Inr readLog, s2) \<Rightarrow>
             (case call (SetTimeout 3000) (\<lambda>w. ((), setTimeout am 3000 w)) s2 of
                (_, s3) \<Rightarrow>
                  (case call (GetLogs readLog) (getLogs sandbox readLog) s3 of
                     (Inl logErr, s4) \<Rightarrow> catchLogErr e logErr s4
                   | (Inr logContent, s4) \<Rightarrow>
                       (let fullLog = fullLogOf logContent;
                            s5 = emit (ConsoleError [S ''[Gateway] startup log from file:'',
                                                     S fullLog]) s4
                        in catchLogErr e
                             (Error (''Moltbot gateway failed to start. Log: '' @ fullLog)) s5))))"

text \<open>
  The \<open>env\<close> option of line 91: \<open>Object.keys(envVars).length > 0 ? envVars : undefined\<close>.
\<close>

definition envOption :: "(string \<times> string) list \<Rightarrow> (string \<times> string) list option" where
  "envOption envVars = (if length (map fst envVars) > 0 then Some envVars else None)"

text \<open>Lines 79 to 131: starting a new gateway and waiting for it.\<close>

definition startNewGateway ::
  "'w ambient \<Rightarrow> 'w sandbox \<Rightarrow> moltbot_env \<Rightarrow> 'w st \<Rightarrow> process result \<times> 'w st" where
  "startNewGateway am sandbox env s =
     (let s1 = emit (ConsoleLog [S ''Starting new Moltbot gateway...'']) s;
          envVars = buildEnvVars am env;
          s2 = emit (ConsoleLog [S ''Starting process with command:'', S gatewayCommand]) s1;
          s3 = emit (ConsoleLog [S ''Environment vars being passed:'', L (map fst envVars)]) s2
      in case call (StartProcess gatewayCommand (envOption envVars))
                   (startProcess sandbox gatewayCommand (envOption envVars)) s3 of
           (Inl startErr, s4) \<Rightarrow>
             (Inl startErr, emit (ConsoleError [S ''Failed to start process:'', E startErr]) s4)
         | (Inr proc, s4) \<Rightarrow>
             (let s5 = emit (ConsoleLog [S ''Process started with id:'', S (id_proc proc),
                                         S ''status:'', S (status proc)]) s4;
                  s6 = emit (ConsoleLog
                              [S ''[Gateway] Waiting for Moltbot gateway to be ready on port'',
                               N (MOLTBOT_PORT am)]) s5
              in case call (WaitForPort proc (MOLTBOT_PORT am) ''tcp'' (STARTUP_TIMEOUT_MS am))
                           (waitForPort sandbox proc (MOLTBOT_PORT am) ''tcp''
                              (STARTUP_TIMEOUT_MS am)) s6 of
                   (Inl e, s7) \<Rightarrow>
                     (case readStartupLog am sandbox e s7 of (err, s8) \<Rightarrow> (Inl err, s8))
                 | (Inr _, s7) \<Rightarrow>
                     (let s8 = emit (ConsoleLog [S ''[Gateway] Moltbot gateway is ready!'']) s7
                      in case call (GetLogs proc) (getLogs sandbox proc) s8 of
                           (Inl e, s9) \<Rightarrow>
                             (case readStartupLog am sandbox e s9 of
                                (err, s10) \<Rightarrow> (Inl err, s10))
                         | (Inr lg, s9) \<Rightarrow>
                             (let s10 = (if stdout lg \<noteq> []
                                         then emit (ConsoleLog [S ''[Gateway] stdout:'', S (stdout lg)]) s9
                                         else s9);
                                  s11 = (if stderr lg \<noteq> []
                                         then emit (ConsoleLog [S ''[Gateway] stderr:'', S (stderr lg)]) s10
                                         else s10);
                                  s12 = emit (ConsoleLog [S ''[Gateway] Verifying gateway health...'']) s11
                              in (Inr proc, s12)))))"

definition ensureMoltbotGateway ::
  "'w ambient \<Rightarrow> 'w sandbox \<Rightarrow> moltbot_env \<Rightarrow> 'w st \<Rightarrow> process result \<times> 'w st" where
  "ensureMoltbotGateway am sandbox env s0 =
     (case reuseExisting am sandbox env s0 of
        (Some r, s) \<Rightarrow> (r, s)
      | (None, s) \<Rightarrow> startNewGateway am sandbox env s)"

subsection \<open>Reading the recorded events\<close>

definition outcome :: "'a \<times> 'w st \<Rightarrow> 'a" where
  "outcome r = fst r"

definition world :: "'a \<times> 'w st \<Rightarrow> 'w" where
  "world r = fst (snd r)"

definition trace :: "'a \<times> 'w st \<Rightarrow> event list" where
  "trace r = snd (snd r)"

fun isKill :: "event \<Rightarrow> bool" where
  "isKill (Kill _) = True"
| "isKill _ = False"

fun isGetLogs :: "event \<Rightarrow> bool" where
  "isGetLogs (GetLogs _) = True"
| "isGetLogs _ = False"

fun isStartProcess :: "event \<Rightarrow> bool" where
  "isStartProcess (StartProcess _ _) = True"
| "isStartProcess _ = False"

section \<open>The access middleware (src/auth/middleware.ts)\<close>

datatype response_type = json | html

text \<open>\<open>AccessMiddlewareOptions\<close>; \<open>redirectOnMissing\<close> is optional.\<close>

record access_options =
  type :: response_type
  redirectOnMissing :: "bool option"

record access_user =
  email :: string
  name :: "string option"

text \<open>The two properties the middleware reads from the verified payload.\<close>

record jwt_payload =
  payload_email :: string
  payload_name :: "string option"

text \<open>
  The part of Hono's \<open>Context\<close> the middleware uses: the bindings \<open>c.env\<close>, the request
  headers (read by \<open>c.req.header\<close> and by \<open>c.req.raw.headers.get\<close>) and the variable
  \<open>accessUser\<close> written by \<open>c.set\<close>.
\<close>

record hono_context =
  bindings :: moltbot_env
  req_header :: "string \<Rightarrow> string option"
  accessUser :: "access_user option"

text \<open>
  The responses built by \<open>c.redirect\<close>, \<open>c.json\<close> and \<open>c.html\<close>, each with its status. What
  the middleware does with a request: it returns \<open>next()\<close>, it returns a response of its
  own, or it returns what Hono's \<open>basicAuth\<close> middleware with the given user name and
  password makes of the request.
\<close>

datatype response =
    Redirect string nat
  | Json "(string \<times> string) list" nat
  | Html string nat

datatype handled = Next | Respond response | BasicAuth string string

fun statusOf :: "response \<Rightarrow> nat" where
  "statusOf (Redirect _ code) = code"
| "statusOf (Json _ code) = code"
| "statusOf (Html _ code) = code"

definition isDevMode :: "moltbot_env \<Rightarrow> bool" where
  "isDevMode env = (DEV_MODE env = Some ''true'')"

definition isE2ETestMode :: "moltbot_env \<Rightarrow> bool" where
  "isE2ETestMode env = (E2E_TEST_MODE env = Some ''true'')"

text \<open>
  JavaScript's truthiness of a \<open>string | undefined\<close>: \<open>undefined\<close> and the empty string are
  falsy.
\<close>

definition truthy :: "string option \<Rightarrow> bool" where
  "truthy v = (case v of None \<Rightarrow> False | Some s \<Rightarrow> s \<noteq> [])"

text \<open>
  \<open>String.prototype.split\<close> with a one-character separator, and \<open>String.prototype.trim\<close>.
  A \<open>char\<close> stands for a code unit below 256, which is what a header value of the Fetch
  \<open>Headers\<close> object is made of. \<open>trim\<close> strips the ECMAScript white space and line
  terminators; those below 256 are tab (U+0009), line feed (U+000A), vertical tab (U+000B),
  form feed (U+000C), carriage return (U+000D), space (U+0020) and the no-break space
  (U+00A0).
\<close>

fun split_js :: "char \<Rightarrow> string \<Rightarrow> string list" where
  "split_js sep [] = [[]]"
| "split_js sep (x # xs) =
     (if x = sep then [] # split_js sep xs
      else (case split_js sep xs of
              y # ys \<Rightarrow> (x # y) # ys
            | [] \<Rightarrow> [[x]]))"

definition isWhiteSpace :: "char \<Rightarrow> bool" where
  "isWhiteSpace ch =
     (ch = CHR 0x09 \<or> ch = CHR 0x0A \<or> ch = CHR 0x0B \<or> ch = CHR 0x0C \<or> ch = CHR 0x0D \<or>
      ch = CHR 0x20 \<or> ch = CHR 0xA0)"

definition trim :: "string \<Rightarrow> string" where
  "trim s = rev (dropWhile isWhiteSpace (rev (dropWhile isWhiteSpace s)))"

definition extractJWT :: "hono_context \<Rightarrow> string option" where
  "extractJWT c =
     (let jwtHeader = req_header c ''CF-Access-JWT-Assertion'';
          jwtCookie =
            (case req_header c ''Cookie'' of
               None \<Rightarrow> None
             | Some cookieHeader \<Rightarrow>
                 (case find (\<lambda>cookie. startsWith (trim cookie) ''CF_Authorization='')
                            (split_js CHR '';'' cookieHeader) of
                    None \<Rightarrow> None
                  | Some cookie \<Rightarrow>
                      (case split_js CHR ''='' cookie of
                         _ # v # _ \<Rightarrow> Some v
                       | _ \<Rightarrow> None)))
      in if truthy jwtHeader then jwtHeader
         else if truthy jwtCookie then jwtCookie
         else None)"

definition missingJwtHint :: string where
  "missingJwtHint =
     ''Missing Cloudflare Access JWT. Ensure this route is protected by Cloudflare Access.''"

definition missingJwtPage :: "string \<Rightarrow> string" where
  "missingJwtPage teamDomain =
     ''\<newline>            <html>\<newline>              <body>\<newline>'' @
     ''                <h1>Unauthorized</h1>\<newline>'' @
     ''                <p>Missing Cloudflare Access token.</p>\<newline>'' @
     ''                <a href=\"https://'' @ teamDomain @ ''\">Login</a>\<newline>'' @
     ''              </body>\<newline>            </html>\<newline>          ''"

definition invalidJwtPage :: "string \<Rightarrow> string" where
  "invalidJwtPage teamDomain =
     ''\<newline>            <html>\<newline>              <body>\<newline>'' @
     ''                <h1>Unauthorized</h1>\<newline>'' @
     ''                <p>Your Cloudflare Access session is invalid or expired.</p>\<newline>'' @
     ''                <a href=\"https://'' @ teamDomain @ ''\">Login again</a>\<newline>'' @
     ''              </body>\<newline>            </html>\<newline>          ''"

definition notConfiguredHint :: string where
  "notConfiguredHint =
     ''Set CF_ACCESS_TEAM_DOMAIN/CF_ACCESS_AUD for Zero Trust, or BASIC_AUTH_USER/BASIC_AUTH_PASS for Basic Auth.''"

definition notConfiguredPage :: string where
  "notConfiguredPage =
     ''\<newline>        <html>\<newline>          <body>\<newline>'' @
     ''            <h1>Authentication Not Configured</h1>\<newline>'' @
     ''            <p>Set CF_ACCESS_TEAM_DOMAIN/CF_ACCESS_AUD (Zero Trust) or BASIC_AUTH_USER/BASIC_AUTH_PASS (Basic Auth) environment variables.</p>\<newline>'' @
     ''          </body>\<newline>        </html>\<newline>      ''"

text \<open>Lines 75 to 94: the answer to a request without a token.\<close>

definition missingJwt ::
  "response_type \<Rightarrow> bool \<Rightarrow> string \<Rightarrow> hono_context \<Rightarrow> handled \<times> hono_context \<times> event list" where
  "missingJwt ty redirect teamDomain c =
     (if ty = html \<and> redirect
      then (Respond (Redirect (''https://'' @ teamDomain) 302), c, [])
      else if ty = json
      then (Respond (Json [(''error'', ''Unauthorized''), (''hint'', missingJwtHint)] 401), c, [])
      else (Respond (Html (missingJwtPage teamDomain) 401), c, []))"

text \<open>
  Lines 71 to 121, entered when \<open>teamDomain && expectedAud\<close> holds; \<open>!jwt\<close> holds of
  \<open>null\<close> and of the empty string. \<open>verifyAccessJWT\<close> (src/auth/jwt) is not part of the
  sources at hand and is taken as a parameter: it answers with the payload or throws.
\<close>

definition accessBranch ::
  "(string \<Rightarrow> string \<Rightarrow> string \<Rightarrow> jwt_payload result) \<Rightarrow> response_type \<Rightarrow> bool \<Rightarrow>
   string \<Rightarrow> string \<Rightarrow> hono_context \<Rightarrow> handled \<times> hono_context \<times> event list" where
  "accessBranch verifyAccessJWT ty redirect teamDomain expectedAud c =
     (case extractJWT c of
        None \<Rightarrow> missingJwt ty redirect teamDomain c
      | Some jwt \<Rightarrow>
          (if jwt = [] then missingJwt ty redirect teamDomain c
           else
             (case verifyAccessJWT jwt teamDomain expectedAud of
                Inr payload \<Rightarrow>
                  (Next,
                   c\<lparr>accessUser := Some \<lparr>email = payload_email payload,
                                          name = payload_name payload\<rparr>\<rparr>,
                   [])
              | Inl err \<Rightarrow>
                  (if ty = json
                   then (Respond (Json [(''error'', ''Unauthorized''),
                                        (''details'',
                                         (case err of Error message \<Rightarrow> message
                                                    | Thrown _ \<Rightarrow> ''JWT verification failed''))]
                                   401),
                         c, [ConsoleError [S ''Access JWT verification failed:'', E err]])
                   else (Respond (Html (invalidJwtPage teamDomain) 401),
                         c, [ConsoleError [S ''Access JWT verification failed:'', E err]])))))"

text \<open>Lines 136 to 150: the answer when no authentication is configured.\<close>

definition notConfigured ::
  "response_type \<Rightarrow> hono_context \<Rightarrow> handled \<times> hono_context \<times> event list" where
  "notConfigured ty c =
     (if ty = json
      then (Respond (Json [(''error'', ''Authentication not configured''),
                           (''hint'', notConfiguredHint)] 500), c, [])
      else (Respond (Html notConfiguredPage 500), c, []))"

text \<open>
  Lines 124 to 150: Basic Auth when \<open>BASIC_AUTH_USER && BASIC_AUTH_PASS\<close> holds (both
  defined and not empty), the not-configured answer otherwise.
\<close>

definition fallbackBranch ::
  "response_type \<Rightarrow> hono_context \<Rightarrow> handled \<times> hono_context \<times> event list" where
  "fallbackBranch ty c =
     (case (BASIC_AUTH_USER (bindings c), BASIC_AUTH_PASS (bindings c)) of
        (Some username, Some password) \<Rightarrow>
          (if username \<noteq> [] \<and> password \<noteq> []
           then (BasicAuth username password,
                 c\<lparr>accessUser := Some \<lparr>email = ''user@basic-auth'',
                                        name = Some ''Authorized User''\<rparr>\<rparr>,
                 [])
           else notConfigured ty c)
      | _ \<Rightarrow> notConfigured ty c)"

text \<open>
  The handler returned by \<open>createAccessMiddleware(options)\<close>, lines 56 to 151. The test
  \<open>teamDomain && expectedAud\<close> of line 70 holds when both bindings are defined and not
  empty.
\<close>

definition createAccessMiddleware ::
  "(string \<Rightarrow> string \<Rightarrow> string \<Rightarrow> jwt_payload result) \<Rightarrow> access_options \<Rightarrow>
   hono_context \<Rightarrow> handled \<times> hono_context \<times> event list" where
  "createAccessMiddleware verifyAccessJWT options c =
     (let ty = type options;
          redirect = (case redirectOnMissing options of None \<Rightarrow> False | Some b \<Rightarrow> b)
      in if isDevMode (bindings c) \<or> isE2ETestMode (bindings c)
         then (Next,
               c\<lparr>accessUser := Some \<lparr>email = ''dev@localhost'', name = Some ''Dev User''\<rparr>\<rparr>,
               [])
         else
           (case (CF_ACCESS_TEAM_DOMAIN (bindings c), CF_ACCESS_AUD (bindings c)) of
              (Some teamDomain, Some expectedAud) \<Rightarrow>
                (if teamDomain \<noteq> [] \<and> expectedAud \<noteq> []
                 then accessBranch verifyAccessJWT ty redirect teamDomain expectedAud c
                 else fallbackBranch ty c)
            | _ \<Rightarrow> fallbackBranch ty c))"

section \<open>Concrete hosts\<close>

text \<open>
  A host whose state counts the calls made on it, with fixed answers: the listing, the
  answer of \<open>waitForPort\<close> and of \<open>kill\<close> for each process, of \<open>startProcess\<close> for each
  command and of \<open>getLogs\<close> for each process. The theorems below are run on such hosts.
\<close>

definition demoAmbient :: "nat ambient" where
  "demoAmbient =
     \<lparr>MOLTBOT_PORT = 18789, STARTUP_TIMEOUT_MS = 180000,
      buildEnvVars = (\<lambda>env. []),
      mountR2Storage = (\<lambda>env w. (Inr False, Suc w)),
      setTimeout = (\<lambda>ms w. w + ms)\<rparr>"

definition demoHost ::
  "process list result \<Rightarrow> (process \<Rightarrow> unit result) \<Rightarrow> (process \<Rightarrow> unit result) \<Rightarrow>
   (string \<Rightarrow> process result) \<Rightarrow> (process \<Rightarrow> logs result) \<Rightarrow> nat sandbox" where
  "demoHost listing ready killing starting logging =
     \<lparr>listProcesses = (\<lambda>w. (listing, Suc w)),
      startProcess = (\<lambda>cmd env w. (starting cmd, Suc w)),
      waitForPort = (\<lambda>proc port mode timeout w. (ready proc, Suc w)),
      kill = (\<lambda>proc w. (killing proc, Suc w)),
      getLogs = (\<lambda>proc w. (logging proc, Suc w))\<rparr>"

definition demoEnv :: moltbot_env where
  "demoEnv = \<lparr>DEV_MODE = None, E2E_TEST_MODE = None, CF_ACCESS_TEAM_DOMAIN = None,
              CF_ACCESS_AUD = None, BASIC_AUTH_USER = None, BASIC_AUTH_PASS = None\<rparr>"

definition runningProc :: process where
  "runningProc = \<lparr>id_proc = ''proc-1'', command = gatewayCommand, status = ''running''\<rparr>"

definition exitedProc :: process where
  "exitedProc =
     \<lparr>id_proc = ''proc-0'', command = ''clawdbot gateway --port 18789'', status = ''exited''\<rparr>"

definition cliProc :: process where
  "cliProc =
     \<lparr>id_proc = ''proc-9'', command = ''sh -c \"clawdbot devices list; clawdbot gateway\"'',
      status = ''running''\<rparr>"

definition freshProc :: process where
  "freshProc = \<lparr>id_proc = ''proc-2'', command = gatewayCommand, status = ''starting''\<rparr>"

definition readLogProc :: process where
  "readLogProc = \<lparr>id_proc = ''proc-3'', command = readLogCommand, status = ''running''\<rparr>"

definition staleHost :: "nat sandbox" where
  "staleHost =
     demoHost (Inr [runningProc])
       (\<lambda>p. if p = runningProc then Inl (Error ''port 18789 not reachable'') else Inr ())
       (\<lambda>p. Inl (Error ''kill refused''))
       (\<lambda>c. if c = gatewayCommand then Inr freshProc else Inr readLogProc)
       (\<lambda>p. Inr \<lparr>stdout = ''gateway listening'', stderr = ''''\<rparr>)"

definition startFailsHost :: "nat sandbox" where
  "startFailsHost =
     demoHost (Inr [cliProc, exitedProc]) (\<lambda>p. Inr ()) (\<lambda>p. Inr ())
       (\<lambda>c. Inl (Error ''sandbox unavailable''))
       (\<lambda>p. Inr \<lparr>stdout = ''unused'', stderr = ''''\<rparr>)"

definition unreachableHost :: "nat sandbox" where
  "unreachableHost =
     demoHost (Inl (Error ''sandbox unreachable'')) (\<lambda>p. Inr ()) (\<lambda>p. Inr ())
       (\<lambda>c. if c = gatewayCommand then Inr freshProc else Inr readLogProc)
       (\<lambda>p. Inr \<lparr>stdout = ''gateway listening'', stderr = ''''\<rparr>)"

definition crashHost :: "nat sandbox" where
  "crashHost =
     demoHost (Inr [])
       (\<lambda>p. Inl (Error ''port 18789 not reachable''))
       (\<lambda>p. Inr ())
       (\<lambda>c. if c = gatewayCommand then Inr freshProc else Inr readLogProc)
       (\<lambda>p. if p = freshProc then Inr \<lparr>stdout = ''fatal: missing token'', stderr = ''''\<rparr>
             else Inr \<lparr>stdout = ''line from the log file'', stderr = ''''\<rparr>)"

definition spawnFailsHost :: "js_error \<Rightarrow> nat sandbox" where
  "spawnFailsHost logErr =
     demoHost (Inr [])
       (\<lambda>p. Inl (Error ''port 18789 not reachable''))
       (\<lambda>p. Inr ())
       (\<lambda>c. if c = gatewayCommand then Inr freshProc else Inl logErr)
       (\<lambda>p. Inr \<lparr>stdout = ''unused'', stderr = ''''\<rparr>)"

definition logsFailHost :: "nat sandbox" where
  "logsFailHost =
     demoHost (Inr [])
       (\<lambda>p. Inl (Error ''port 18789 not reachable''))
       (\<lambda>p. Inr ())
       (\<lambda>c. if c = gatewayCommand then Inr freshProc else Inr readLogProc)
       (\<lambda>p. Inl (Thrown ''logs unavailable''))"

text \<open>
  Requests for the middleware: bindings with Cloudflare Access and Basic Auth both
  configured, a verifier that accepts one token, and a request built from its headers.
\<close>

definition accessEnv :: moltbot_env where
  "accessEnv =
     \<lparr>DEV_MODE = None, E2E_TEST_MODE = None,
      CF_ACCESS_TEAM_DOMAIN = Some ''team.cloudflareaccess.com'', CF_ACCESS_AUD = Some ''aud-1'',
      BASIC_AUTH_USER = Some ''admin'', BASIC_AUTH_PASS = Some ''secret''\<rparr>"

definition demoVerify :: "string \<Rightarrow> string \<Rightarrow> string \<Rightarrow> jwt_payload result" where
  "demoVerify jwt teamDomain expectedAud =
     (if jwt = ''good.jwt'' \<and> teamDomain = ''team.cloudflareaccess.com'' \<and> expectedAud = ''aud-1''
      then Inr \<lparr>payload_email = ''alice@example.com'', payload_name = Some ''Alice''\<rparr>
      else Inl (Error ''JWT expired''))"

definition requestWith :: "moltbot_env \<Rightarrow> (string \<times> string) list \<Rightarrow> hono_context" where
  "requestWith env headers = \<lparr>bindings = env, req_header = map_of headers, accessUser = None\<rparr>"

section \<open>String matching\<close>

lemma startsWith_iff: "startsWith s p \<longleftrightarrow> (\<exists>post. s = p @ post)"
  unfolding startsWith_def by (metis append_eq_conv_conj append_take_drop_id)

lemma includes_js_iff: "includes_js s sub \<longleftrightarrow> (\<exists>pre post. s = pre @ sub @ post)"
proof (induction s)
  case Nil
  then show ?case by auto
next
  case (Cons c cs)
  show ?case
  proof
    assume "includes_js (c # cs) sub"
    then consider "startsWith (c # cs) sub" | "includes_js cs sub" by auto
    then show "\<exists>pre post. c # cs = pre @ sub @ post"
    proof cases
      case 1
      then obtain post where "c # cs = sub @ post" using startsWith_iff by blast
      then have "c # cs = [] @ sub @ post" by simp
      then show ?thesis by blast
    next
      case 2
      then obtain pre post where "cs = pre @ sub @ post" using Cons.IH by blast
      then have "c # cs = (c # pre) @ sub @ post" by simp
      then show ?thesis by blast
    qed
  next
    assume "\<exists>pre post. c # cs = pre @ sub @ post"
    then obtain pre post where eq: "c # cs = pre @ sub @ post" by blast
    show "includes_js (c # cs) sub"
    proof (cases pre)
      case Nil
      with eq have "c # cs = sub @ post" by simp
      then have "startsWith (c # cs) sub" using startsWith_iff by blast
      then show ?thesis by simp
    next
      case (Cons a pre')
      with eq have "cs = pre' @ sub @ post" by simp
      then show ?thesis using Cons.IH by auto
    qed
  qed
qed

section \<open>Discovery\<close>

lemma findExisting_loop_find:
  "findExisting_loop processes =
     List.find (\<lambda>proc. status proc = ''starting'' \<or> status proc = ''running'')
       (filter (\<lambda>proc. isGatewayProcess proc \<and> \<not> isCliCommand proc) processes)"
  by (induction processes) simp_all

lemma findExisting_loop_Some:
  "findExisting_loop processes = Some proc \<Longrightarrow>
     proc \<in> set processes \<and> isGatewayProcess proc \<and> \<not> isCliCommand proc \<and>
     (status proc = ''starting'' \<or> status proc = ''running'')"
  by (induction processes) (auto split: if_splits)

lemma findExisting_fst:
  "fst (findExistingMoltbotProcess sandbox s) =
     (case fst (listProcesses sandbox (fst s)) of
        Inr processes \<Rightarrow> findExisting_loop processes | Inl e \<Rightarrow> None)"
  by (simp add: findExistingMoltbotProcess_def call_def emit_def split: prod.splits sum.splits)

lemma findExisting_Some_state:
  assumes "findExistingMoltbotProcess sandbox (w, tr) = (Some proc, (w', tr'))"
  shows "tr' = tr @ [ListProcesses] \<and>
         (\<exists>processes. listProcesses sandbox w = (Inr processes, w') \<and>
                       findExisting_loop processes = Some proc)"
  using assms
  by (auto simp: findExistingMoltbotProcess_def call_def emit_def split: prod.splits sum.splits)

lemma findExisting_trace:
  assumes "findExistingMoltbotProcess sandbox (w, tr) = (r, (w', tr'))"
  shows "\<exists>add. tr' = tr @ add \<and>
           (\<forall>ev\<in>set add. \<not> isGetLogs ev \<and> \<not> isStartProcess ev \<and> \<not> isKill ev)"
  using assms
  by (auto simp: findExistingMoltbotProcess_def call_def emit_def split: prod.splits sum.splits)

lemma demo_cli: "isCliCommand cliProc" "isGatewayProcess cliProc"
  by (simp_all add: isCliCommand_def isGatewayProcess_def cliProc_def startsWith_def)

lemma demo_running: "\<not> isCliCommand runningProc" "isGatewayProcess runningProc"
  by (simp_all add: isCliCommand_def isGatewayProcess_def runningProc_def gatewayCommand_def
        startsWith_def)

lemma demo_exited: "\<not> isCliCommand exitedProc" "isGatewayProcess exitedProc"
  by (simp_all add: isCliCommand_def isGatewayProcess_def exitedProc_def startsWith_def)

lemma demo_find: "findExisting_loop [cliProc, exitedProc, runningProc] = Some runningProc"
  by (simp add: demo_cli demo_exited demo_running) (simp add: exitedProc_def runningProc_def)

text \<open>
  C2. A process whose command contains an excluded pattern (\<open>clawdbot devices\<close> or
  \<open>clawdbot --version\<close>) is never the result of \<open>findExistingMoltbotProcess\<close>, whatever
  the host lists and whether or not the command also contains a gateway pattern.
\<close>

theorem discover_exclusion_precedence:
  assumes "isCliCommand proc"
  shows "fst (findExistingMoltbotProcess sandbox s) \<noteq> Some proc"
proof
  assume "fst (findExistingMoltbotProcess sandbox s) = Some proc"
  then obtain processes where "findExisting_loop processes = Some proc"
    by (auto simp: findExisting_fst split: sum.splits)
  then have "\<not> isCliCommand proc" using findExisting_loop_Some by blast
  with assms show False by simp
qed

theorem discover_exclusion_precedence_witness:
  "isCliCommand cliProc \<and> isGatewayProcess cliProc \<and> status cliProc = ''running'' \<and>
   fst (findExistingMoltbotProcess
          (demoHost (Inr [cliProc]) (\<lambda>p. Inr ()) (\<lambda>p. Inr ())
             (\<lambda>c. Inl (Thrown ''unused'')) (\<lambda>p. Inl (Thrown ''unused'')))
          (0, [])) \<noteq> Some cliProc"
proof -
  have st: "status cliProc = ''running''" by (simp add: cliProc_def)
  show ?thesis
    using demo_cli st discover_exclusion_precedence[OF demo_cli(1)] by blast
qed

text \<open>
  C8. When the listing succeeds, the result of \<open>findExistingMoltbotProcess\<close> is the first
  process of the list, among those that match a gateway pattern and no excluded pattern,
  whose status is \<open>starting\<close> or \<open>running\<close>; a process with any other status is never the
  result.
\<close>

theorem discover_first_live_match:
  assumes "listProcesses sandbox (fst s) = (Inr processes, w')"
  shows "fst (findExistingMoltbotProcess sandbox s) =
           List.find (\<lambda>proc. status proc = ''starting'' \<or> status proc = ''running'')
             (filter (\<lambda>proc. isGatewayProcess proc \<and> \<not> isCliCommand proc) processes)
         \<and> (\<forall>proc. fst (findExistingMoltbotProcess sandbox s) = Some proc \<longrightarrow>
               status proc = ''starting'' \<or> status proc = ''running'')"
proof -
  have eq: "fst (findExistingMoltbotProcess sandbox s) = findExisting_loop processes"
    using assms by (simp add: findExisting_fst)
  show ?thesis
  proof (intro conjI allI impI)
    show "fst (findExistingMoltbotProcess sandbox s) =
           List.find (\<lambda>proc. status proc = ''starting'' \<or> status proc = ''running'')
             (filter (\<lambda>proc. isGatewayProcess proc \<and> \<not> isCliCommand proc) processes)"
      using eq findExisting_loop_find by simp
  next
    fix proc
    assume "fst (findExistingMoltbotProcess sandbox s) = Some proc"
    then have "findExisting_loop processes = Some proc" using eq by simp
    then show "status proc = ''starting'' \<or> status proc = ''running''"
      using findExisting_loop_Some by blast
  qed
qed

theorem discover_first_live_match_witness:
  "fst (findExistingMoltbotProcess
          (demoHost (Inr [cliProc, exitedProc, runningProc, freshProc]) (\<lambda>p. Inr ())
             (\<lambda>p. Inr ()) (\<lambda>c. Inl (Thrown ''unused'')) (\<lambda>p. Inl (Thrown ''unused'')))
          (0, [])) = Some runningProc
   \<and> status runningProc = ''running''"
proof -
  let ?host = "demoHost (Inr [cliProc, exitedProc, runningProc, freshProc]) (\<lambda>p. Inr ())
             (\<lambda>p. Inr ()) (\<lambda>c. Inl (Thrown ''unused'')) (\<lambda>p. Inl (Thrown ''unused''))"
  have l: "listProcesses ?host (fst (0::nat, [])) =
             (Inr [cliProc, exitedProc, runningProc, freshProc], 1)"
    by (simp add: demoHost_def)
  have st: "status exitedProc = ''exited''" "status runningProc = ''running''"
    by (simp_all add: exitedProc_def runningProc_def)
  show ?thesis
    using discover_first_live_match[OF l] demo_cli demo_exited demo_running st by simp
qed

section \<open>Ensuring the gateway\<close>

lemma catchLogErr_frame:
  "\<exists>r add. (\<forall>tr. catchLogErr e logErr (w, tr) = (r, (w, tr @ add))) \<and>
            (\<forall>ev\<in>set add. \<not> isKill ev)"
  by (cases "isGatewayFailure logErr") (simp_all add: catchLogErr_def emit_def)

lemma readStartupLog_frame:
  "\<exists>r w' add. (\<forall>tr. readStartupLog am sandbox e (w, tr) = (r, (w', tr @ add))) \<and>
               (\<forall>ev\<in>set add. \<not> isKill ev)"
proof (cases "startProcess sandbox readLogCommand None w")
  case (Pair sr w2)
  show ?thesis
  proof (cases sr)
    case (Inl logErr)
    from catchLogErr_frame[of e logErr w2] obtain r add where
      c: "\<And>tr. catchLogErr e logErr (w2, tr) = (r, (w2, tr @ add))" "\<forall>ev\<in>set add. \<not> isKill ev"
      by blast
    have "\<And>tr. readStartupLog am sandbox e (w, tr) =
            (r, (w2, tr @ ([ConsoleError [S ''[Gateway] waitForPort failed:'', E e],
                           StartProcess readLogCommand None] @ add)))"
      using Pair Inl c(1) by (simp add: readStartupLog_def call_def emit_def)
    moreover have "\<forall>ev\<in>set ([ConsoleError [S ''[Gateway] waitForPort failed:'', E e],
                           StartProcess readLogCommand None] @ add). \<not> isKill ev"
      using c(2) by simp
    ultimately show ?thesis by blast
  next
    case (Inr readLog)
    obtain lr w4 where g: "getLogs sandbox readLog (setTimeout am 3000 w2) = (lr, w4)"
      by (metis prod.exhaust)
    show ?thesis
    proof (cases lr)
      case (Inl logErr)
      from catchLogErr_frame[of e logErr w4] obtain r add where
        c: "\<And>tr. catchLogErr e logErr (w4, tr) = (r, (w4, tr @ add))" "\<forall>ev\<in>set add. \<not> isKill ev"
        by blast
      have "\<And>tr. readStartupLog am sandbox e (w, tr) =
              (r, (w4, tr @ ([ConsoleError [S ''[Gateway] waitForPort failed:'', E e],
                             StartProcess readLogCommand None, SetTimeout 3000,
                             GetLogs readLog] @ add)))"
        using Pair Inr g Inl c(1) by (simp add: readStartupLog_def call_def emit_def)
      moreover have "\<forall>ev\<in>set ([ConsoleError [S ''[Gateway] waitForPort failed:'', E e],
                             StartProcess readLogCommand None, SetTimeout 3000,
                             GetLogs readLog] @ add). \<not> isKill ev"
        using c(2) by simp
      ultimately show ?thesis by blast
    next
      case (Inr logContent)
      let ?err = "Error (''Moltbot gateway failed to start. Log: '' @ fullLogOf logContent)"
      from catchLogErr_frame[of e ?err w4] obtain r add where
        c: "\<And>tr. catchLogErr e ?err (w4, tr) = (r, (w4, tr @ add))" "\<forall>ev\<in>set add. \<not> isKill ev"
        by blast
      have "\<And>tr. readStartupLog am sandbox e (w, tr) =
              (r, (w4, tr @ ([ConsoleError [S ''[Gateway] waitForPort failed:'', E e],
                             StartProcess readLogCommand None, SetTimeout 3000,
                             GetLogs readLog,
                             ConsoleError [S ''[Gateway] startup log from file:'',
                                           S (fullLogOf logContent)]] @ add)))"
        using Pair \<open>sr = Inr readLog\<close> g Inr c(1)
        by (simp add: readStartupLog_def call_def emit_def Let_def)
      moreover have "\<forall>ev\<in>set ([ConsoleError [S ''[Gateway] waitForPort failed:'', E e],
                             StartProcess readLogCommand None, SetTimeout 3000,
                             GetLogs readLog,
                             ConsoleError [S ''[Gateway] startup log from file:'',
                                           S (fullLogOf logContent)]] @ add). \<not> isKill ev"
        using c(2) by simp
      ultimately show ?thesis by blast
    qed
  qed
qed

lemma startNewGateway_frame:
  "\<exists>r w' post.
     (\<forall>tr. startNewGateway am sandbox env (w, tr) =
             (r, (w', tr @ [ConsoleLog [S ''Starting new Moltbot gateway...''],
                           ConsoleLog [S ''Starting process with command:'', S gatewayCommand],
                           ConsoleLog [S ''Environment vars being passed:'',
                                       L (map fst (buildEnvVars am env))],
                           StartProcess gatewayCommand (envOption (buildEnvVars am env))] @ post))) \<and>
     (\<forall>ev\<in>set post. \<not> isKill ev)"
proof (cases "startProcess sandbox gatewayCommand (envOption (buildEnvVars am env)) w")
  case (Pair sr w1)
  show ?thesis
  proof (cases sr)
    case (Inl startErr)
    have "\<And>tr. startNewGateway am sandbox env (w, tr) =
             (Inl startErr,
              (w1, tr @ [ConsoleLog [S ''Starting new Moltbot gateway...''],
                         ConsoleLog [S ''Starting process with command:'', S gatewayCommand],
                         ConsoleLog [S ''Environment vars being passed:'',
                                     L (map fst (buildEnvVars am env))],
                         StartProcess gatewayCommand (envOption (buildEnvVars am env))] @
                        [ConsoleError [S ''Failed to start process:'', E startErr]]))"
      using Pair Inl by (simp add: startNewGateway_def call_def emit_def Let_def)
    moreover have "\<forall>ev\<in>set [ConsoleError [S ''Failed to start process:'', E startErr]]. \<not> isKill ev"
      by simp
    ultimately show ?thesis by blast
  next
    case (Inr proc)
    note started = Pair Inr
    obtain wr w2 where
      wait: "waitForPort sandbox proc (MOLTBOT_PORT am) ''tcp'' (STARTUP_TIMEOUT_MS am) w1 = (wr, w2)"
      by (metis prod.exhaust)
    let ?waiting = "[ConsoleLog [S ''Process started with id:'', S (id_proc proc),
                                 S ''status:'', S (status proc)],
                     ConsoleLog [S ''[Gateway] Waiting for Moltbot gateway to be ready on port'',
                                 N (MOLTBOT_PORT am)],
                     WaitForPort proc (MOLTBOT_PORT am) ''tcp'' (STARTUP_TIMEOUT_MS am)]"
    show ?thesis
    proof (cases wr)
      case (Inl e)
      from readStartupLog_frame[of am sandbox e w2] obtain r w' add where
        rd: "\<And>tr. readStartupLog am sandbox e (w2, tr) = (r, (w', tr @ add))"
            "\<forall>ev\<in>set add. \<not> isKill ev"
        by blast
      have "\<And>tr. startNewGateway am sandbox env (w, tr) =
             (Inl r,
              (w', tr @ [ConsoleLog [S ''Starting new Moltbot gateway...''],
                         ConsoleLog [S ''Starting process with command:'', S gatewayCommand],
                         ConsoleLog [S ''Environment vars being passed:'',
                                     L (map fst (buildEnvVars am env))],
                         StartProcess gatewayCommand (envOption (buildEnvVars am env))] @
                        (?waiting @ add)))"
        using started wait Inl rd(1) by (simp add: startNewGateway_def call_def emit_def Let_def)
      moreover have "\<forall>ev\<in>set (?waiting @ add). \<not> isKill ev"
        using rd(2) by simp
      ultimately show ?thesis by blast
    next
      case (Inr u)
      note ready = wait Inr
      obtain lr w3 where lg: "getLogs sandbox proc w2 = (lr, w3)"
        by (metis prod.exhaust)
      let ?ready = "?waiting @ [ConsoleLog [S ''[Gateway] Moltbot gateway is ready!''],
                                GetLogs proc]"
      show ?thesis
      proof (cases lr)
        case (Inl e)
        from readStartupLog_frame[of am sandbox e w3] obtain r w' add where
          rd: "\<And>tr. readStartupLog am sandbox e (w3, tr) = (r, (w', tr @ add))"
              "\<forall>ev\<in>set add. \<not> isKill ev"
          by blast
        have "\<And>tr. startNewGateway am sandbox env (w, tr) =
               (Inl r,
                (w', tr @ [ConsoleLog [S ''Starting new Moltbot gateway...''],
                           ConsoleLog [S ''Starting process with command:'', S gatewayCommand],
                           ConsoleLog [S ''Environment vars being passed:'',
                                       L (map fst (buildEnvVars am env))],
                           StartProcess gatewayCommand (envOption (buildEnvVars am env))] @
                          (?ready @ add)))"
          using started ready lg Inl rd(1)
          by (simp add: startNewGateway_def call_def emit_def Let_def)
        moreover have "\<forall>ev\<in>set (?ready @ add). \<not> isKill ev"
          using rd(2) by simp
        ultimately show ?thesis by blast
      next
        case (Inr got)
        let ?out = "(if stdout got \<noteq> [] then [ConsoleLog [S ''[Gateway] stdout:'', S (stdout got)]]
                     else []) @
                    (if stderr got \<noteq> [] then [ConsoleLog [S ''[Gateway] stderr:'', S (stderr got)]]
                     else []) @
                    [ConsoleLog [S ''[Gateway] Verifying gateway health...'']]"
        have "\<And>tr. startNewGateway am sandbox env (w, tr) =
               (Inr proc,
                (w3, tr @ [ConsoleLog [S ''Starting new Moltbot gateway...''],
                           ConsoleLog [S ''Starting process with command:'', S gatewayCommand],
                           ConsoleLog [S ''Environment vars being passed:'',
                                       L (map fst (buildEnvVars am env))],
                           StartProcess gatewayCommand (envOption (buildEnvVars am env))] @
                          (?ready @ ?out)))"
          using started ready lg Inr
          by (simp add: startNewGateway_def call_def emit_def Let_def)
        moreover have "\<forall>ev\<in>set (?ready @ ?out). \<not> isKill ev"
          by auto
        ultimately show ?thesis by blast
      qed
    qed
  qed
qed

lemma readStartupLog_listing_irrelevant:
  "readStartupLog am (sandbox\<lparr>listProcesses := f\<rparr>) e s = readStartupLog am sandbox e s"
  by (simp add: readStartupLog_def cong: prod.case_cong sum.case_cong)

lemma startNewGateway_listing_irrelevant:
  "startNewGateway am (sandbox\<lparr>listProcesses := f\<rparr>) env s = startNewGateway am sandbox env s"
  by (simp add: startNewGateway_def readStartupLog_listing_irrelevant Let_def
        cong: prod.case_cong sum.case_cong)

lemma reuseExisting_found:
  assumes mount: "mountR2Storage am env w0 = (Inr mounted, w1)"
    and found: "findExistingMoltbotProcess sandbox (w1, [MountR2Storage]) =
                  (Some existingProcess, (w2, tr2))"
    and wait: "waitForPort sandbox existingProcess (MOLTBOT_PORT am) ''tcp''
                  (STARTUP_TIMEOUT_MS am) w2 = (wr, w3)"
    and killed: "kill sandbox existingProcess w3 = (kr, w4)"
  shows "reuseExisting am sandbox env (w0, []) =
           (case wr of
              Inr u \<Rightarrow>
                (Some (Inr existingProcess),
                 (w3, [MountR2Storage, ListProcesses,
                       ConsoleLog [S ''Found existing Moltbot process:'', S (id_proc existingProcess),
                                   S ''status:'', S (status existingProcess)],
                       ConsoleLog [S ''Waiting for Moltbot gateway on port'', N (MOLTBOT_PORT am),
                                   S ''timeout:'', N (STARTUP_TIMEOUT_MS am)],
                       WaitForPort existingProcess (MOLTBOT_PORT am) ''tcp'' (STARTUP_TIMEOUT_MS am),
                       ConsoleLog [S ''Moltbot gateway is reachable'']]))
            | Inl e \<Rightarrow>
                (None,
                 (w4, [MountR2Storage, ListProcesses,
                       ConsoleLog [S ''Found existing Moltbot process:'', S (id_proc existingProcess),
                                   S ''status:'', S (status existingProcess)],
                       ConsoleLog [S ''Waiting for Moltbot gateway on port'', N (MOLTBOT_PORT am),
                                   S ''timeout:'', N (STARTUP_TIMEOUT_MS am)],
                       WaitForPort existingProcess (MOLTBOT_PORT am) ''tcp'' (STARTUP_TIMEOUT_MS am),
                       ConsoleLog [S ''Existing process not reachable after full timeout, killing and restarting...''],
                       Kill existingProcess] @
                      (case kr of
                         Inl killError \<Rightarrow> [ConsoleLog [S ''Failed to kill process:'', E killError]]
                       | Inr u \<Rightarrow> [])))) "
proof -
  have tr2: "tr2 = [MountR2Storage, ListProcesses]"
    using findExisting_Some_state[OF found] by simp
  show ?thesis
  proof (cases wr)
    case (Inr u)
    then show ?thesis
      using mount found wait tr2
      by (simp add: reuseExisting_def call_def emit_def Let_def)
  next
    case (Inl e)
    then show ?thesis
      using mount found wait killed tr2
      by (cases kr) (simp_all add: reuseExisting_def call_def emit_def Let_def)
  qed
qed

lemma reuseExisting_trace:
  assumes "reuseExisting am sandbox env (w0, []) = (r, (w, tr))"
  shows "\<forall>ev\<in>set tr. \<not> isGetLogs ev \<and> \<not> isStartProcess ev"
proof -
  obtain mr w1 where mount: "mountR2Storage am env w0 = (mr, w1)"
    by (metis prod.exhaust)
  show ?thesis
  proof (cases mr)
    case (Inl mountErr)
    with mount assms show ?thesis
      by (auto simp: reuseExisting_def call_def)
  next
    case (Inr mounted)
    obtain fr w2 tr2 where
      f: "findExistingMoltbotProcess sandbox (w1, [MountR2Storage]) = (fr, (w2, tr2))"
      by (metis prod.exhaust)
    show ?thesis
    proof (cases fr)
      case None
      from findExisting_trace[OF f] obtain add where
        "tr2 = [MountR2Storage] @ add"
        "\<forall>ev\<in>set add. \<not> isGetLogs ev \<and> \<not> isStartProcess ev \<and> \<not> isKill ev"
        by blast
      moreover have "tr = tr2"
        using assms mount Inr f None by (simp add: reuseExisting_def call_def)
      ultimately show ?thesis by auto
    next
      case (Some existingProcess)
      obtain wr w3 where
        wait: "waitForPort sandbox existingProcess (MOLTBOT_PORT am) ''tcp''
                 (STARTUP_TIMEOUT_MS am) w2 = (wr, w3)"
        by (metis prod.exhaust)
      obtain kr w4 where killed: "kill sandbox existingProcess w3 = (kr, w4)"
        by (metis prod.exhaust)
      have r: "reuseExisting am sandbox env (w0, []) = (r, (w, tr))" by (rule assms)
      show ?thesis
        using reuseExisting_found[OF mount[unfolded Inr] f[unfolded Some] wait killed] r
        by (cases wr; cases kr) auto
    qed
  qed
qed

lemma startNewGateway_start_failed:
  assumes "startProcess sandbox gatewayCommand (envOption (buildEnvVars am env)) w = (Inl startErr, w')"
  shows "startNewGateway am sandbox env (w, tr) =
           (Inl startErr,
            (w', tr @ [ConsoleLog [S ''Starting new Moltbot gateway...''],
                       ConsoleLog [S ''Starting process with command:'', S gatewayCommand],
                       ConsoleLog [S ''Environment vars being passed:'',
                                   L (map fst (buildEnvVars am env))],
                       StartProcess gatewayCommand (envOption (buildEnvVars am env)),
                       ConsoleError [S ''Failed to start process:'', E startErr]]))"
  using assms by (simp add: startNewGateway_def call_def emit_def Let_def)

text \<open>
  C1. When discovery finds an existing process and the wait for the port on it succeeds,
  \<open>ensureMoltbotGateway\<close> returns that process. The wait is made with
  \<open>STARTUP_TIMEOUT_MS\<close>, the timeout also used for a newly started process, and the run
  consists of the mount, the listing, that one wait and console output: no \<open>kill\<close> and no
  \<open>startProcess\<close>.
\<close>

theorem ensure_reuses_ready_process:
  assumes mount: "mountR2Storage am env w0 = (Inr mounted, w1)"
    and found: "findExistingMoltbotProcess sandbox (w1, [MountR2Storage]) =
                  (Some existingProcess, (w2, tr2))"
    and ready: "waitForPort sandbox existingProcess (MOLTBOT_PORT am) ''tcp''
                  (STARTUP_TIMEOUT_MS am) w2 = (Inr u, w3)"
  shows "ensureMoltbotGateway am sandbox env (w0, []) =
           (Inr existingProcess,
            (w3, [MountR2Storage, ListProcesses,
                  ConsoleLog [S ''Found existing Moltbot process:'', S (id_proc existingProcess),
                              S ''status:'', S (status existingProcess)],
                  ConsoleLog [S ''Waiting for Moltbot gateway on port'', N (MOLTBOT_PORT am),
                              S ''timeout:'', N (STARTUP_TIMEOUT_MS am)],
                  WaitForPort existingProcess (MOLTBOT_PORT am) ''tcp'' (STARTUP_TIMEOUT_MS am),
                  ConsoleLog [S ''Moltbot gateway is reachable'']]))"
proof -
  obtain kr w4 where killed: "kill sandbox existingProcess w3 = (kr, w4)"
    by (metis prod.exhaust)
  show ?thesis
    using reuseExisting_found[OF mount found ready killed]
    by (simp add: ensureMoltbotGateway_def)
qed

theorem ensure_reuses_ready_process_witness:
  "ensureMoltbotGateway demoAmbient
     (demoHost (Inr [cliProc, exitedProc, runningProc]) (\<lambda>p. Inr ()) (\<lambda>p. Inr ())
        (\<lambda>c. Inl (Thrown ''unused'')) (\<lambda>p. Inl (Thrown ''unused'')))
     demoEnv (0, []) =
   (Inr runningProc,
    (3, [MountR2Storage, ListProcesses,
         ConsoleLog [S ''Found existing Moltbot process:'', S ''proc-1'', S ''status:'', S ''running''],
         ConsoleLog [S ''Waiting for Moltbot gateway on port'', N 18789, S ''timeout:'', N 180000],
         WaitForPort runningProc 18789 ''tcp'' 180000,
         ConsoleLog [S ''Moltbot gateway is reachable'']]))"
proof -
  let ?host = "demoHost (Inr [cliProc, exitedProc, runningProc]) (\<lambda>p. Inr ()) (\<lambda>p. Inr ())
        (\<lambda>c. Inl (Thrown ''unused'')) (\<lambda>p. Inl (Thrown ''unused''))"
  have m: "mountR2Storage demoAmbient demoEnv 0 = (Inr False, 1)"
    by (simp add: demoAmbient_def)
  have f: "findExistingMoltbotProcess ?host (1, [MountR2Storage]) =
             (Some runningProc, (2, [MountR2Storage, ListProcesses]))"
    by (simp add: findExistingMoltbotProcess_def call_def demoHost_def demo_find
          del: findExisting_loop.simps)
  have r: "waitForPort ?host runningProc (MOLTBOT_PORT demoAmbient) ''tcp''
             (STARTUP_TIMEOUT_MS demoAmbient) 2 = (Inr (), 3)"
    by (simp add: demoHost_def)
  show ?thesis
    using ensure_reuses_ready_process[OF m f r]
    by (simp add: demoAmbient_def runningProc_def)
qed

text \<open>
  C3. When the wait on the existing process fails, \<open>kill\<close> is called on that process
  once, before \<open>startProcess\<close> is called with the gateway command; a failing \<open>kill\<close> is
  logged and the start is attempted all the same. No other \<open>kill\<close> occurs in the run.
\<close>

theorem ensure_kills_stale_once:
  assumes mount: "mountR2Storage am env w0 = (Inr mounted, w1)"
    and found: "findExistingMoltbotProcess sandbox (w1, [MountR2Storage]) =
                  (Some existingProcess, (w2, tr2))"
    and stale: "waitForPort sandbox existingProcess (MOLTBOT_PORT am) ''tcp''
                  (STARTUP_TIMEOUT_MS am) w2 = (Inl e, w3)"
    and killed: "kill sandbox existingProcess w3 = (killResult, w4)"
  shows "(\<exists>post.
           trace (ensureMoltbotGateway am sandbox env (w0, [])) =
             [MountR2Storage, ListProcesses,
              ConsoleLog [S ''Found existing Moltbot process:'', S (id_proc existingProcess),
                          S ''status:'', S (status existingProcess)],
              ConsoleLog [S ''Waiting for Moltbot gateway on port'', N (MOLTBOT_PORT am),
                          S ''timeout:'', N (STARTUP_TIMEOUT_MS am)],
              WaitForPort existingProcess (MOLTBOT_PORT am) ''tcp'' (STARTUP_TIMEOUT_MS am),
              ConsoleLog [S ''Existing process not reachable after full timeout, killing and restarting...''],
              Kill existingProcess] @
             (case killResult of
                Inl killError \<Rightarrow> [ConsoleLog [S ''Failed to kill process:'', E killError]]
              | Inr u \<Rightarrow> []) @
             [ConsoleLog [S ''Starting new Moltbot gateway...''],
              ConsoleLog [S ''Starting process with command:'', S gatewayCommand],
              ConsoleLog [S ''Environment vars being passed:'', L (map fst (buildEnvVars am env))],
              StartProcess gatewayCommand (envOption (buildEnvVars am env))] @ post
           \<and> (\<forall>ev\<in>set post. \<not> isKill ev))
         \<and> filter isKill (trace (ensureMoltbotGateway am sandbox env (w0, []))) =
             [Kill existingProcess]"
proof -
  let ?pre = "[MountR2Storage, ListProcesses,
              ConsoleLog [S ''Found existing Moltbot process:'', S (id_proc existingProcess),
                          S ''status:'', S (status existingProcess)],
              ConsoleLog [S ''Waiting for Moltbot gateway on port'', N (MOLTBOT_PORT am),
                          S ''timeout:'', N (STARTUP_TIMEOUT_MS am)],
              WaitForPort existingProcess (MOLTBOT_PORT am) ''tcp'' (STARTUP_TIMEOUT_MS am),
              ConsoleLog [S ''Existing process not reachable after full timeout, killing and restarting...''],
              Kill existingProcess] @
             (case killResult of
                Inl killError \<Rightarrow> [ConsoleLog [S ''Failed to kill process:'', E killError]]
              | Inr u \<Rightarrow> [])"
  let ?start = "[ConsoleLog [S ''Starting new Moltbot gateway...''],
              ConsoleLog [S ''Starting process with command:'', S gatewayCommand],
              ConsoleLog [S ''Environment vars being passed:'', L (map fst (buildEnvVars am env))],
              StartProcess gatewayCommand (envOption (buildEnvVars am env))]"
  have reuse: "reuseExisting am sandbox env (w0, []) = (None, (w4, ?pre))"
    using reuseExisting_found[OF mount found stale killed] by simp
  from startNewGateway_frame[of am sandbox env w4] obtain r w' post where
    fr: "\<And>tr. startNewGateway am sandbox env (w4, tr) = (r, (w', tr @ ?start @ post))"
        "\<forall>ev\<in>set post. \<not> isKill ev"
    by blast
  have tr: "trace (ensureMoltbotGateway am sandbox env (w0, [])) = ?pre @ ?start @ post"
    using reuse fr(1)[of ?pre] by (simp add: ensureMoltbotGateway_def trace_def)
  have kills: "filter isKill (?pre @ ?start @ post) = [Kill existingProcess]"
    using fr(2) by (cases killResult) (simp_all add: filter_empty_conv)
  show ?thesis
    using tr fr(2) kills by (metis append.assoc)
qed

lemma demo_find_running: "findExisting_loop [runningProc] = Some runningProc"
  by (simp add: demo_running) (simp add: runningProc_def)

theorem ensure_kills_stale_once_witness:
  "(\<exists>post.
      trace (ensureMoltbotGateway demoAmbient staleHost demoEnv (0, [])) =
        [MountR2Storage, ListProcesses,
         ConsoleLog [S ''Found existing Moltbot process:'', S ''proc-1'', S ''status:'', S ''running''],
         ConsoleLog [S ''Waiting for Moltbot gateway on port'', N 18789, S ''timeout:'', N 180000],
         WaitForPort runningProc 18789 ''tcp'' 180000,
         ConsoleLog [S ''Existing process not reachable after full timeout, killing and restarting...''],
         Kill runningProc,
         ConsoleLog [S ''Failed to kill process:'', E (Error ''kill refused'')],
         ConsoleLog [S ''Starting new Moltbot gateway...''],
         ConsoleLog [S ''Starting process with command:'', S gatewayCommand],
         ConsoleLog [S ''Environment vars being passed:'', L []],
         StartProcess gatewayCommand None] @ post
      \<and> (\<forall>ev\<in>set post. \<not> isKill ev))
   \<and> filter isKill (trace (ensureMoltbotGateway demoAmbient staleHost demoEnv (0, []))) =
       [Kill runningProc]"
proof -
  have m: "mountR2Storage demoAmbient demoEnv 0 = (Inr False, 1)"
    by (simp add: demoAmbient_def)
  have f: "findExistingMoltbotProcess staleHost (1, [MountR2Storage]) =
             (Some runningProc, (2, [MountR2Storage, ListProcesses]))"
    by (simp add: findExistingMoltbotProcess_def call_def staleHost_def demoHost_def
          demo_find_running del: findExisting_loop.simps)
  have s: "waitForPort staleHost runningProc (MOLTBOT_PORT demoAmbient) ''tcp''
             (STARTUP_TIMEOUT_MS demoAmbient) 2 = (Inl (Error ''port 18789 not reachable''), 3)"
    by (simp add: staleHost_def demoHost_def)
  have k: "kill staleHost runningProc 3 = (Inl (Error ''kill refused''), 4)"
    by (simp add: staleHost_def demoHost_def)
  show ?thesis
    using ensure_kills_stale_once[OF m f s k]
    by (simp add: demoAmbient_def runningProc_def envOption_def)
qed

text \<open>
  C4. When execution reaches the start of a new gateway and \<open>startProcess\<close> throws, the
  error thrown by \<open>ensureMoltbotGateway\<close> is that same error, the run ends with the console
  message of the failure, and the whole run contains no \<open>getLogs\<close> call and no start of the
  command that reads the log file.
\<close>

theorem ensure_start_error_verbatim:
  assumes reach: "reuseExisting am sandbox env (w0, []) = (None, (w, tr))"
    and fail: "startProcess sandbox gatewayCommand (envOption (buildEnvVars am env)) w =
                 (Inl startErr, w')"
  shows "ensureMoltbotGateway am sandbox env (w0, []) =
           (Inl startErr,
            (w', tr @ [ConsoleLog [S ''Starting new Moltbot gateway...''],
                       ConsoleLog [S ''Starting process with command:'', S gatewayCommand],
                       ConsoleLog [S ''Environment vars being passed:'',
                                   L (map fst (buildEnvVars am env))],
                       StartProcess gatewayCommand (envOption (buildEnvVars am env)),
                       ConsoleError [S ''Failed to start process:'', E startErr]]))
         \<and> (\<forall>ev\<in>set (trace (ensureMoltbotGateway am sandbox env (w0, []))).
               \<not> isGetLogs ev \<and> ev \<noteq> StartProcess readLogCommand None)"
proof -
  have run: "ensureMoltbotGateway am sandbox env (w0, []) =
           (Inl startErr,
            (w', tr @ [ConsoleLog [S ''Starting new Moltbot gateway...''],
                       ConsoleLog [S ''Starting process with command:'', S gatewayCommand],
                       ConsoleLog [S ''Environment vars being passed:'',
                                   L (map fst (buildEnvVars am env))],
                       StartProcess gatewayCommand (envOption (buildEnvVars am env)),
                       ConsoleError [S ''Failed to start process:'', E startErr]]))"
    using reach startNewGateway_start_failed[OF fail]
    by (simp add: ensureMoltbotGateway_def)
  have before: "\<forall>ev\<in>set tr. \<not> isGetLogs ev \<and> \<not> isStartProcess ev"
    using reuseExisting_trace[OF reach] .
  have differ: "gatewayCommand \<noteq> readLogCommand"
    by (simp add: gatewayCommand_def readLogCommand_def)
  have "\<forall>ev\<in>set tr. \<not> isGetLogs ev \<and> ev \<noteq> StartProcess readLogCommand None"
    using before by auto
  then show ?thesis
    using run differ by (simp add: trace_def)
qed

lemma demo_find_none: "findExisting_loop [cliProc, exitedProc] = None"
  by (simp add: demo_cli demo_exited) (simp add: exitedProc_def)

theorem ensure_start_error_verbatim_witness:
  "ensureMoltbotGateway demoAmbient startFailsHost demoEnv (0, []) =
     (Inl (Error ''sandbox unavailable''),
      (3, [MountR2Storage, ListProcesses,
           ConsoleLog [S ''Starting new Moltbot gateway...''],
           ConsoleLog [S ''Starting process with command:'', S gatewayCommand],
           ConsoleLog [S ''Environment vars being passed:'', L []],
           StartProcess gatewayCommand None,
           ConsoleError [S ''Failed to start process:'', E (Error ''sandbox unavailable'')]]))
   \<and> filter isGetLogs (trace (ensureMoltbotGateway demoAmbient startFailsHost demoEnv (0, []))) = []
   \<and> StartProcess readLogCommand None
        \<notin> set (trace (ensureMoltbotGateway demoAmbient startFailsHost demoEnv (0, [])))"
proof -
  have r: "reuseExisting demoAmbient startFailsHost demoEnv (0, []) =
             (None, (2, [MountR2Storage, ListProcesses]))"
    by (simp add: reuseExisting_def findExistingMoltbotProcess_def call_def demoAmbient_def
          startFailsHost_def demoHost_def demo_find_none del: findExisting_loop.simps)
  have f: "startProcess startFailsHost gatewayCommand
             (envOption (buildEnvVars demoAmbient demoEnv)) 2 =
             (Inl (Error ''sandbox unavailable''), 3)"
    by (simp add: startFailsHost_def demoHost_def)
  note inst = ensure_start_error_verbatim[OF r f]
  have run: "ensureMoltbotGateway demoAmbient startFailsHost demoEnv (0, []) =
     (Inl (Error ''sandbox unavailable''),
      (3, [MountR2Storage, ListProcesses,
           ConsoleLog [S ''Starting new Moltbot gateway...''],
           ConsoleLog [S ''Starting process with command:'', S gatewayCommand],
           ConsoleLog [S ''Environment vars being passed:'', L []],
           StartProcess gatewayCommand None,
           ConsoleError [S ''Failed to start process:'', E (Error ''sandbox unavailable'')]]))"
    using inst by (simp add: demoAmbient_def envOption_def)
  have quiet: "\<forall>ev\<in>set (trace (ensureMoltbotGateway demoAmbient startFailsHost demoEnv (0, []))).
         \<not> isGetLogs ev \<and> ev \<noteq> StartProcess readLogCommand None"
    using inst by blast
  have none: "filter isGetLogs
                (trace (ensureMoltbotGateway demoAmbient startFailsHost demoEnv (0, []))) = []"
    using quiet by (simp add: filter_empty_conv)
  have absent: "StartProcess readLogCommand None
        \<notin> set (trace (ensureMoltbotGateway demoAmbient startFailsHost demoEnv (0, [])))"
    using quiet by blast
  show ?thesis
    by (intro conjI) (rule run, rule none, rule absent)
qed

lemma startNewGateway_wait_failed:
  assumes started: "startProcess sandbox gatewayCommand (envOption (buildEnvVars am env)) w =
                      (Inr proc, w1)"
    and notReady: "waitForPort sandbox proc (MOLTBOT_PORT am) ''tcp'' (STARTUP_TIMEOUT_MS am) w1 =
                      (Inl e, w2)"
  shows "startNewGateway am sandbox env (w, tr) =
           (case readStartupLog am sandbox e
                   (w2, tr @ [ConsoleLog [S ''Starting new Moltbot gateway...''],
                              ConsoleLog [S ''Starting process with command:'', S gatewayCommand],
                              ConsoleLog [S ''Environment vars being passed:'',
                                          L (map fst (buildEnvVars am env))],
                              StartProcess gatewayCommand (envOption (buildEnvVars am env)),
                              ConsoleLog [S ''Process started with id:'', S (id_proc proc),
                                          S ''status:'', S (status proc)],
                              ConsoleLog [S ''[Gateway] Waiting for Moltbot gateway to be ready on port'',
                                          N (MOLTBOT_PORT am)],
                              WaitForPort proc (MOLTBOT_PORT am) ''tcp'' (STARTUP_TIMEOUT_MS am)]) of
              (err, s) \<Rightarrow> (Inl err, s))"
  using assms by (simp add: startNewGateway_def call_def emit_def Let_def)

lemma readStartupLog_spawn_failed:
  assumes "startProcess sandbox readLogCommand None w = (Inl logErr, w')"
  shows "readStartupLog am sandbox e (w, tr) =
           catchLogErr e logErr
             (w', tr @ [ConsoleError [S ''[Gateway] waitForPort failed:'', E e],
                        StartProcess readLogCommand None])"
  using assms by (simp add: readStartupLog_def call_def emit_def)

lemma readStartupLog_spawned:
  assumes "startProcess sandbox readLogCommand None w = (Inr readLog, w')"
    and "getLogs sandbox readLog (setTimeout am 3000 w') = (lr, w'')"
  shows "readStartupLog am sandbox e (w, tr) =
           (case lr of
              Inl logErr \<Rightarrow>
                catchLogErr e logErr
                  (w'', tr @ [ConsoleError [S ''[Gateway] waitForPort failed:'', E e],
                              StartProcess readLogCommand None, SetTimeout 3000, GetLogs readLog])
            | Inr logContent \<Rightarrow>
                (Error (''Moltbot gateway failed to start. Log: '' @ fullLogOf logContent),
                 (w'', tr @ [ConsoleError [S ''[Gateway] waitForPort failed:'', E e],
                             StartProcess readLogCommand None, SetTimeout 3000, GetLogs readLog,
                             ConsoleError [S ''[Gateway] startup log from file:'',
                                           S (fullLogOf logContent)]])))"
proof (cases lr)
  case (Inl logErr)
  with assms show ?thesis by (simp add: readStartupLog_def call_def emit_def)
next
  case (Inr logContent)
  have "isGatewayFailure (Error (''Moltbot gateway failed to start. Log: '' @ fullLogOf logContent))"
    by (simp add: isGatewayFailure_def startsWith_def)
  with assms Inr show ?thesis
    by (simp add: readStartupLog_def catchLogErr_def call_def emit_def Let_def)
qed

text \<open>
  C7. When \<open>listProcesses\<close> throws, \<open>findExistingMoltbotProcess\<close> logs the error and
  returns \<open>null\<close>. \<open>ensureMoltbotGateway\<close> then goes on to start a new gateway, and what it
  returns or throws, and the state it leaves the host in, are those of the same run on a
  host whose listing is empty: the listing error reaches the caller of neither function.
\<close>

theorem listing_error_is_absence:
  assumes listing: "listProcesses sandbox w = (Inl e, w')"
  shows "findExistingMoltbotProcess sandbox (w, tr) =
           (None, (w', tr @ [ListProcesses, ConsoleLog [S ''Could not list processes:'', E e]]))
         \<and> (\<forall>w0 mounted. mountR2Storage am env w0 = (Inr mounted, w) \<longrightarrow>
               ensureMoltbotGateway am sandbox env (w0, []) =
                 startNewGateway am sandbox env
                   (w', [MountR2Storage, ListProcesses,
                         ConsoleLog [S ''Could not list processes:'', E e]])
               \<and> outcome (ensureMoltbotGateway am sandbox env (w0, [])) =
                   outcome (ensureMoltbotGateway am
                              (sandbox\<lparr>listProcesses := \<lambda>v. (Inr [], snd (listProcesses sandbox v))\<rparr>)
                              env (w0, []))
               \<and> world (ensureMoltbotGateway am sandbox env (w0, [])) =
                   world (ensureMoltbotGateway am
                            (sandbox\<lparr>listProcesses := \<lambda>v. (Inr [], snd (listProcesses sandbox v))\<rparr>)
                            env (w0, [])))"
proof (intro conjI allI impI)
  show f: "findExistingMoltbotProcess sandbox (w, tr) =
           (None, (w', tr @ [ListProcesses, ConsoleLog [S ''Could not list processes:'', E e]]))"
    for tr
    using listing by (simp add: findExistingMoltbotProcess_def call_def emit_def)
  fix w0 mounted
  assume mount: "mountR2Storage am env w0 = (Inr mounted, w)"
  let ?quiet = "sandbox\<lparr>listProcesses := \<lambda>v. (Inr [], snd (listProcesses sandbox v))\<rparr>"
  let ?logged = "[MountR2Storage, ListProcesses, ConsoleLog [S ''Could not list processes:'', E e]]"
  show run: "ensureMoltbotGateway am sandbox env (w0, []) =
               startNewGateway am sandbox env (w', ?logged)"
    using mount f[of "[MountR2Storage]"]
    by (simp add: ensureMoltbotGateway_def reuseExisting_def call_def)
  have "findExistingMoltbotProcess ?quiet (w, [MountR2Storage]) =
          (None, (w', [MountR2Storage, ListProcesses]))"
    using listing by (simp add: findExistingMoltbotProcess_def call_def)
  then have "ensureMoltbotGateway am ?quiet env (w0, []) =
          startNewGateway am ?quiet env (w', [MountR2Storage, ListProcesses])"
    using mount by (simp add: ensureMoltbotGateway_def reuseExisting_def call_def)
  then have quiet: "ensureMoltbotGateway am ?quiet env (w0, []) =
          startNewGateway am sandbox env (w', [MountR2Storage, ListProcesses])"
    by (simp add: startNewGateway_listing_irrelevant)
  from startNewGateway_frame[of am sandbox env w'] obtain r w'' post where
    fr: "\<And>tr. startNewGateway am sandbox env (w', tr) =
           (r, (w'', tr @ [ConsoleLog [S ''Starting new Moltbot gateway...''],
                           ConsoleLog [S ''Starting process with command:'', S gatewayCommand],
                           ConsoleLog [S ''Environment vars being passed:'',
                                       L (map fst (buildEnvVars am env))],
                           StartProcess gatewayCommand (envOption (buildEnvVars am env))] @ post))"
    by blast
  show "outcome (ensureMoltbotGateway am sandbox env (w0, [])) =
          outcome (ensureMoltbotGateway am ?quiet env (w0, []))"
    using run quiet fr by (simp add: outcome_def)
  show "world (ensureMoltbotGateway am sandbox env (w0, [])) =
          world (ensureMoltbotGateway am ?quiet env (w0, []))"
    using run quiet fr by (simp add: world_def)
qed

theorem listing_error_is_absence_witness:
  "findExistingMoltbotProcess unreachableHost (1, [MountR2Storage]) =
     (None, (2, [MountR2Storage, ListProcesses,
                 ConsoleLog [S ''Could not list processes:'', E (Error ''sandbox unreachable'')]]))
   \<and> outcome (ensureMoltbotGateway demoAmbient unreachableHost demoEnv (0, [])) = Inr freshProc
   \<and> outcome (ensureMoltbotGateway demoAmbient
                (unreachableHost\<lparr>listProcesses := \<lambda>v. (Inr [], snd (listProcesses unreachableHost v))\<rparr>)
                demoEnv (0, [])) = Inr freshProc"
proof -
  have l: "listProcesses unreachableHost 1 = (Inl (Error ''sandbox unreachable''), 2)"
    by (simp add: unreachableHost_def demoHost_def)
  have m: "mountR2Storage demoAmbient demoEnv 0 = (Inr False, 1)"
    by (simp add: demoAmbient_def)
  have s: "outcome (startNewGateway demoAmbient unreachableHost demoEnv
             (2, [MountR2Storage, ListProcesses,
                  ConsoleLog [S ''Could not list processes:'', E (Error ''sandbox unreachable'')]]))
           = Inr freshProc"
    by (simp add: startNewGateway_def call_def emit_def outcome_def Let_def demoAmbient_def
          unreachableHost_def demoHost_def envOption_def)
  note inst = listing_error_is_absence[OF l, of "[MountR2Storage]" demoAmbient demoEnv]
  have found: "findExistingMoltbotProcess unreachableHost (1, [MountR2Storage]) =
     (None, (2, [MountR2Storage, ListProcesses,
                 ConsoleLog [S ''Could not list processes:'', E (Error ''sandbox unreachable'')]]))"
    using inst by simp
  have rest: "ensureMoltbotGateway demoAmbient unreachableHost demoEnv (0, []) =
        startNewGateway demoAmbient unreachableHost demoEnv
          (2, [MountR2Storage, ListProcesses,
               ConsoleLog [S ''Could not list processes:'', E (Error ''sandbox unreachable'')]])
      \<and> outcome (ensureMoltbotGateway demoAmbient unreachableHost demoEnv (0, [])) =
          outcome (ensureMoltbotGateway demoAmbient
                     (unreachableHost\<lparr>listProcesses := \<lambda>v. (Inr [], snd (listProcesses unreachableHost v))\<rparr>)
                     demoEnv (0, []))"
    using inst m by blast
  have o1: "outcome (ensureMoltbotGateway demoAmbient unreachableHost demoEnv (0, [])) = Inr freshProc"
    using rest s by (simp only:)
  have o2: "outcome (ensureMoltbotGateway demoAmbient
                (unreachableHost\<lparr>listProcesses := \<lambda>v. (Inr [], snd (listProcesses unreachableHost v))\<rparr>)
                demoEnv (0, [])) = Inr freshProc"
    using rest o1 by (simp only:)
  show ?thesis
    by (intro conjI) (rule found, rule o1, rule o2)
qed

text \<open>
  C5, as amended. When the wait on a newly started process fails, the next call is the
  start of \<open>cat /tmp/moltbot-startup.log\<close>, with only the console message of the failure
  in between: \<open>getLogs\<close> is not called on the new process. When the start of that command
  succeeds, the 3000 ms timer and \<open>getLogs\<close> on the process of that command follow.
  After that the run calls neither \<open>getLogs\<close> nor \<open>startProcess\<close> again.
\<close>

theorem fresh_wait_failure_reads_log_file:
  assumes reach: "reuseExisting am sandbox env (w0, []) = (None, (w, tr))"
    and started: "startProcess sandbox gatewayCommand (envOption (buildEnvVars am env)) w =
                    (Inr proc, w1)"
    and notReady: "waitForPort sandbox proc (MOLTBOT_PORT am) ''tcp'' (STARTUP_TIMEOUT_MS am) w1 =
                    (Inl e, w2)"
    and spawn: "startProcess sandbox readLogCommand None w2 = (spawnResult, w3)"
  shows "\<exists>post.
           trace (ensureMoltbotGateway am sandbox env (w0, [])) =
             tr @ [ConsoleLog [S ''Starting new Moltbot gateway...''],
                   ConsoleLog [S ''Starting process with command:'', S gatewayCommand],
                   ConsoleLog [S ''Environment vars being passed:'',
                               L (map fst (buildEnvVars am env))],
                   StartProcess gatewayCommand (envOption (buildEnvVars am env)),
                   ConsoleLog [S ''Process started with id:'', S (id_proc proc),
                               S ''status:'', S (status proc)],
                   ConsoleLog [S ''[Gateway] Waiting for Moltbot gateway to be ready on port'',
                               N (MOLTBOT_PORT am)],
                   WaitForPort proc (MOLTBOT_PORT am) ''tcp'' (STARTUP_TIMEOUT_MS am),
                   ConsoleError [S ''[Gateway] waitForPort failed:'', E e],
                   StartProcess readLogCommand None] @
                  (case spawnResult of
                     Inl logErr \<Rightarrow> []
                   | Inr readLog \<Rightarrow> [SetTimeout 3000, GetLogs readLog]) @ post
           \<and> (\<forall>ev\<in>set post. \<not> isGetLogs ev \<and> \<not> isStartProcess ev)"
proof -
  let ?before = "tr @ [ConsoleLog [S ''Starting new Moltbot gateway...''],
                   ConsoleLog [S ''Starting process with command:'', S gatewayCommand],
                   ConsoleLog [S ''Environment vars being passed:'',
                               L (map fst (buildEnvVars am env))],
                   StartProcess gatewayCommand (envOption (buildEnvVars am env)),
                   ConsoleLog [S ''Process started with id:'', S (id_proc proc),
                               S ''status:'', S (status proc)],
                   ConsoleLog [S ''[Gateway] Waiting for Moltbot gateway to be ready on port'',
                               N (MOLTBOT_PORT am)],
                   WaitForPort proc (MOLTBOT_PORT am) ''tcp'' (STARTUP_TIMEOUT_MS am)]"
  have run: "ensureMoltbotGateway am sandbox env (w0, []) =
               (case readStartupLog am sandbox e (w2, ?before) of (err, s) \<Rightarrow> (Inl err, s))"
    using reach startNewGateway_wait_failed[OF started notReady, of tr]
    by (simp add: ensureMoltbotGateway_def)
  show ?thesis
  proof (cases spawnResult)
    case (Inl logErr)
    have "readStartupLog am sandbox e (w2, ?before) =
            catchLogErr e logErr
              (w3, ?before @ [ConsoleError [S ''[Gateway] waitForPort failed:'', E e],
                              StartProcess readLogCommand None])"
      using readStartupLog_spawn_failed[OF spawn[unfolded Inl]] .
    then show ?thesis
      using run Inl by (simp add: trace_def catchLogErr_def emit_def)
  next
    case (Inr readLog)
    obtain lr w4 where lg: "getLogs sandbox readLog (setTimeout am 3000 w3) = (lr, w4)"
      by (metis prod.exhaust)
    show ?thesis
      using run Inr readStartupLog_spawned[OF spawn[unfolded Inr] lg, of e ?before]
      by (cases lr) (simp_all add: trace_def catchLogErr_def emit_def)
  qed
qed

lemma demo_reach:
  "reuseExisting demoAmbient (demoHost (Inr []) ready killing starting logging) demoEnv (0, []) =
     (None, (2, [MountR2Storage, ListProcesses]))"
  by (simp add: reuseExisting_def findExistingMoltbotProcess_def call_def demoAmbient_def
        demoHost_def)

lemma demo_commands: "readLogCommand \<noteq> gatewayCommand"
  by (simp add: gatewayCommand_def readLogCommand_def)

theorem fresh_wait_failure_reads_log_file_witness:
  "\<exists>post.
     trace (ensureMoltbotGateway demoAmbient crashHost demoEnv (0, [])) =
       [MountR2Storage, ListProcesses] @
       [ConsoleLog [S ''Starting new Moltbot gateway...''],
        ConsoleLog [S ''Starting process with command:'', S gatewayCommand],
        ConsoleLog [S ''Environment vars being passed:'', L []],
        StartProcess gatewayCommand None,
        ConsoleLog [S ''Process started with id:'', S ''proc-2'', S ''status:'', S ''starting''],
        ConsoleLog [S ''[Gateway] Waiting for Moltbot gateway to be ready on port'', N 18789],
        WaitForPort freshProc 18789 ''tcp'' 180000,
        ConsoleError [S ''[Gateway] waitForPort failed:'', E (Error ''port 18789 not reachable'')],
        StartProcess readLogCommand None] @
       [SetTimeout 3000, GetLogs readLogProc] @ post
     \<and> (\<forall>ev\<in>set post. \<not> isGetLogs ev \<and> \<not> isStartProcess ev)"
proof -
  have r: "reuseExisting demoAmbient crashHost demoEnv (0, []) =
             (None, (2, [MountR2Storage, ListProcesses]))"
    unfolding crashHost_def by (rule demo_reach)
  have s: "startProcess crashHost gatewayCommand (envOption (buildEnvVars demoAmbient demoEnv)) 2 =
             (Inr freshProc, 3)"
    by (simp add: crashHost_def demoHost_def)
  have n: "waitForPort crashHost freshProc (MOLTBOT_PORT demoAmbient) ''tcp''
             (STARTUP_TIMEOUT_MS demoAmbient) 3 = (Inl (Error ''port 18789 not reachable''), 4)"
    by (simp add: crashHost_def demoHost_def)
  have c: "startProcess crashHost readLogCommand None 4 = (Inr readLogProc, 5)"
    by (simp add: crashHost_def demoHost_def demo_commands)
  show ?thesis
    using fresh_wait_failure_reads_log_file[OF r s n c]
    by (simp add: demoAmbient_def envOption_def freshProc_def)
qed

text \<open>
  C5, as stated, fails: on a host whose log API would answer for the new process with
  non-empty output, the run never calls \<open>getLogs\<close> on the new process and starts the
  command that reads the log file all the same.
\<close>

theorem fresh_wait_failure_skips_host_logs:
  "waitForPort crashHost freshProc 18789 ''tcp'' 180000 3 =
     (Inl (Error ''port 18789 not reachable''), 4)
   \<and> getLogs crashHost freshProc 4 = (Inr \<lparr>stdout = ''fatal: missing token'', stderr = ''''\<rparr>, 5)
   \<and> ensureMoltbotGateway demoAmbient crashHost demoEnv (0, []) =
       (Inl (Error ''Moltbot gateway failed to start. Log: line from the log file''),
        (3006,
         [MountR2Storage, ListProcesses,
          ConsoleLog [S ''Starting new Moltbot gateway...''],
          ConsoleLog [S ''Starting process with command:'', S gatewayCommand],
          ConsoleLog [S ''Environment vars being passed:'', L []],
          StartProcess gatewayCommand None,
          ConsoleLog [S ''Process started with id:'', S ''proc-2'', S ''status:'', S ''starting''],
          ConsoleLog [S ''[Gateway] Waiting for Moltbot gateway to be ready on port'', N 18789],
          WaitForPort freshProc 18789 ''tcp'' 180000,
          ConsoleError [S ''[Gateway] waitForPort failed:'', E (Error ''port 18789 not reachable'')],
          StartProcess readLogCommand None,
          SetTimeout 3000,
          GetLogs readLogProc,
          ConsoleError [S ''[Gateway] startup log from file:'', S ''line from the log file'']]))
   \<and> GetLogs freshProc \<notin> set (trace (ensureMoltbotGateway demoAmbient crashHost demoEnv (0, [])))
   \<and> StartProcess readLogCommand None
        \<in> set (trace (ensureMoltbotGateway demoAmbient crashHost demoEnv (0, [])))"
proof -
  have w: "waitForPort crashHost freshProc 18789 ''tcp'' 180000 3 =
             (Inl (Error ''port 18789 not reachable''), 4)"
    by (simp add: crashHost_def demoHost_def)
  have g: "getLogs crashHost freshProc 4 =
             (Inr \<lparr>stdout = ''fatal: missing token'', stderr = ''''\<rparr>, 5)"
    by (simp add: crashHost_def demoHost_def)
  have differ: "readLogProc \<noteq> freshProc"
    by (simp add: readLogProc_def freshProc_def)
  have r: "reuseExisting demoAmbient crashHost demoEnv (0, []) =
             (None, (2, [MountR2Storage, ListProcesses]))"
    unfolding crashHost_def by (rule demo_reach)
  have run: "ensureMoltbotGateway demoAmbient crashHost demoEnv (0, []) =
       (Inl (Error ''Moltbot gateway failed to start. Log: line from the log file''),
        (3006,
         [MountR2Storage, ListProcesses,
          ConsoleLog [S ''Starting new Moltbot gateway...''],
          ConsoleLog [S ''Starting process with command:'', S gatewayCommand],
          ConsoleLog [S ''Environment vars being passed:'', L []],
          StartProcess gatewayCommand None,
          ConsoleLog [S ''Process started with id:'', S ''proc-2'', S ''status:'', S ''starting''],
          ConsoleLog [S ''[Gateway] Waiting for Moltbot gateway to be ready on port'', N 18789],
          WaitForPort freshProc 18789 ''tcp'' 180000,
          ConsoleError [S ''[Gateway] waitForPort failed:'', E (Error ''port 18789 not reachable'')],
          StartProcess readLogCommand None,
          SetTimeout 3000,
          GetLogs readLogProc,
          ConsoleError [S ''[Gateway] startup log from file:'', S ''line from the log file'']]))"
    using r differ
    by (simp add: ensureMoltbotGateway_def startNewGateway_def readStartupLog_def catchLogErr_def
          isGatewayFailure_def startsWith_def fullLogOf_def call_def emit_def Let_def
          demoAmbient_def crashHost_def demoHost_def envOption_def demo_commands freshProc_def)
  have absent: "GetLogs freshProc \<notin> set (trace (ensureMoltbotGateway demoAmbient crashHost demoEnv (0, [])))"
    using differ by (simp add: run trace_def)
  have present: "StartProcess readLogCommand None
        \<in> set (trace (ensureMoltbotGateway demoAmbient crashHost demoEnv (0, [])))"
    by (simp add: run trace_def)
  show ?thesis
    by (intro conjI) (rule w, rule g, rule run, rule absent, rule present)
qed

text \<open>
  C6, as amended. After a failed wait on a newly started process: when the command that
  reads the log file starts and its logs are read, the error thrown is an \<open>Error\<close> whose
  message is \<open>Moltbot gateway failed to start. Log: \<close> followed by the text read (stdout,
  else stderr, else \<open>(no log output)\<close>); when the start of that command or the reading of
  its logs throws a value that is not an \<open>Error\<close> whose message starts with
  \<open>Moltbot gateway failed\<close>, the error thrown is the one of the failed wait.
\<close>

theorem fresh_wait_failure_error:
  assumes reach: "reuseExisting am sandbox env (w0, []) = (None, (w, tr))"
    and started: "startProcess sandbox gatewayCommand (envOption (buildEnvVars am env)) w =
                    (Inr proc, w1)"
    and notReady: "waitForPort sandbox proc (MOLTBOT_PORT am) ''tcp'' (STARTUP_TIMEOUT_MS am) w1 =
                    (Inl e, w2)"
  shows "(\<forall>readLog w3 logContent w4.
            startProcess sandbox readLogCommand None w2 = (Inr readLog, w3) \<and>
            getLogs sandbox readLog (setTimeout am 3000 w3) = (Inr logContent, w4) \<longrightarrow>
            outcome (ensureMoltbotGateway am sandbox env (w0, [])) =
              Inl (Error (''Moltbot gateway failed to start. Log: '' @ fullLogOf logContent)))
         \<and> (\<forall>logErr w3.
            startProcess sandbox readLogCommand None w2 = (Inl logErr, w3) \<and>
            \<not> isGatewayFailure logErr \<longrightarrow>
            outcome (ensureMoltbotGateway am sandbox env (w0, [])) = Inl e)
         \<and> (\<forall>readLog w3 logErr w4.
            startProcess sandbox readLogCommand None w2 = (Inr readLog, w3) \<and>
            getLogs sandbox readLog (setTimeout am 3000 w3) = (Inl logErr, w4) \<and>
            \<not> isGatewayFailure logErr \<longrightarrow>
            outcome (ensureMoltbotGateway am sandbox env (w0, [])) = Inl e)"
proof -
  let ?before = "tr @ [ConsoleLog [S ''Starting new Moltbot gateway...''],
                   ConsoleLog [S ''Starting process with command:'', S gatewayCommand],
                   ConsoleLog [S ''Environment vars being passed:'',
                               L (map fst (buildEnvVars am env))],
                   StartProcess gatewayCommand (envOption (buildEnvVars am env)),
                   ConsoleLog [S ''Process started with id:'', S (id_proc proc),
                               S ''status:'', S (status proc)],
                   ConsoleLog [S ''[Gateway] Waiting for Moltbot gateway to be ready on port'',
                               N (MOLTBOT_PORT am)],
                   WaitForPort proc (MOLTBOT_PORT am) ''tcp'' (STARTUP_TIMEOUT_MS am)]"
  have run: "outcome (ensureMoltbotGateway am sandbox env (w0, [])) =
               Inl (fst (readStartupLog am sandbox e (w2, ?before)))"
    using reach startNewGateway_wait_failed[OF started notReady, of tr]
    by (simp add: ensureMoltbotGateway_def outcome_def split: prod.splits)
  show ?thesis
  proof (intro conjI allI impI; elim conjE)
    fix readLog w3 logContent w4
    assume "startProcess sandbox readLogCommand None w2 = (Inr readLog, w3)"
      and "getLogs sandbox readLog (setTimeout am 3000 w3) = (Inr logContent, w4)"
    from readStartupLog_spawned[OF this, of e ?before]
    show "outcome (ensureMoltbotGateway am sandbox env (w0, [])) =
            Inl (Error (''Moltbot gateway failed to start. Log: '' @ fullLogOf logContent))"
      using run by simp
  next
    fix logErr w3
    assume "startProcess sandbox readLogCommand None w2 = (Inl logErr, w3)"
      and other: "\<not> isGatewayFailure logErr"
    from readStartupLog_spawn_failed[OF this(1), of am e ?before] other
    show "outcome (ensureMoltbotGateway am sandbox env (w0, [])) = Inl e"
      using run by (simp add: catchLogErr_def)
  next
    fix readLog w3 logErr w4
    assume "startProcess sandbox readLogCommand None w2 = (Inr readLog, w3)"
      and "getLogs sandbox readLog (setTimeout am 3000 w3) = (Inl logErr, w4)"
      and other: "\<not> isGatewayFailure logErr"
    from readStartupLog_spawned[OF this(1,2), of e ?before] other
    show "outcome (ensureMoltbotGateway am sandbox env (w0, [])) = Inl e"
      using run by (simp add: catchLogErr_def)
  qed
qed

theorem fresh_wait_failure_error_witness:
  "outcome (ensureMoltbotGateway demoAmbient crashHost demoEnv (0, [])) =
     Inl (Error ''Moltbot gateway failed to start. Log: line from the log file'')
   \<and> outcome (ensureMoltbotGateway demoAmbient (spawnFailsHost (Thrown ''sandbox unavailable''))
                demoEnv (0, [])) =
     Inl (Error ''port 18789 not reachable'')
   \<and> outcome (ensureMoltbotGateway demoAmbient logsFailHost demoEnv (0, [])) =
     Inl (Error ''port 18789 not reachable'')"
proof (intro conjI)
  have r: "reuseExisting demoAmbient crashHost demoEnv (0, []) =
             (None, (2, [MountR2Storage, ListProcesses]))"
    unfolding crashHost_def by (rule demo_reach)
  have s: "startProcess crashHost gatewayCommand (envOption (buildEnvVars demoAmbient demoEnv)) 2 =
             (Inr freshProc, 3)"
    by (simp add: crashHost_def demoHost_def)
  have n: "waitForPort crashHost freshProc (MOLTBOT_PORT demoAmbient) ''tcp''
             (STARTUP_TIMEOUT_MS demoAmbient) 3 = (Inl (Error ''port 18789 not reachable''), 4)"
    by (simp add: crashHost_def demoHost_def)
  have c: "startProcess crashHost readLogCommand None 4 = (Inr readLogProc, 5)"
    by (simp add: crashHost_def demoHost_def demo_commands)
  have g: "getLogs crashHost readLogProc (setTimeout demoAmbient 3000 5) =
             (Inr \<lparr>stdout = ''line from the log file'', stderr = ''''\<rparr>, 3006)"
    by (simp add: crashHost_def demoHost_def demoAmbient_def readLogProc_def freshProc_def)
  from fresh_wait_failure_error[OF r s n] c g
  have "outcome (ensureMoltbotGateway demoAmbient crashHost demoEnv (0, [])) =
          Inl (Error (''Moltbot gateway failed to start. Log: '' @
                      fullLogOf \<lparr>stdout = ''line from the log file'', stderr = ''''\<rparr>))"
    by blast
  then show "outcome (ensureMoltbotGateway demoAmbient crashHost demoEnv (0, [])) =
     Inl (Error ''Moltbot gateway failed to start. Log: line from the log file'')"
    by (simp add: fullLogOf_def)
next
  let ?host = "spawnFailsHost (Thrown ''sandbox unavailable'')"
  have r: "reuseExisting demoAmbient ?host demoEnv (0, []) =
             (None, (2, [MountR2Storage, ListProcesses]))"
    unfolding spawnFailsHost_def by (rule demo_reach)
  have s: "startProcess ?host gatewayCommand (envOption (buildEnvVars demoAmbient demoEnv)) 2 =
             (Inr freshProc, 3)"
    by (simp add: spawnFailsHost_def demoHost_def)
  have n: "waitForPort ?host freshProc (MOLTBOT_PORT demoAmbient) ''tcp''
             (STARTUP_TIMEOUT_MS demoAmbient) 3 = (Inl (Error ''port 18789 not reachable''), 4)"
    by (simp add: spawnFailsHost_def demoHost_def)
  have c: "startProcess ?host readLogCommand None 4 = (Inl (Thrown ''sandbox unavailable''), 5)"
    by (simp add: spawnFailsHost_def demoHost_def demo_commands)
  have o: "\<not> isGatewayFailure (Thrown ''sandbox unavailable'')"
    by (simp add: isGatewayFailure_def)
  from fresh_wait_failure_error[OF r s n] c o
  show "outcome (ensureMoltbotGateway demoAmbient ?host demoEnv (0, [])) =
          Inl (Error ''port 18789 not reachable'')"
    by blast
next
  have r: "reuseExisting demoAmbient logsFailHost demoEnv (0, []) =
             (None, (2, [MountR2Storage, ListProcesses]))"
    unfolding logsFailHost_def by (rule demo_reach)
  have s: "startProcess logsFailHost gatewayCommand (envOption (buildEnvVars demoAmbient demoEnv)) 2 =
             (Inr freshProc, 3)"
    by (simp add: logsFailHost_def demoHost_def)
  have n: "waitForPort logsFailHost freshProc (MOLTBOT_PORT demoAmbient) ''tcp''
             (STARTUP_TIMEOUT_MS demoAmbient) 3 = (Inl (Error ''port 18789 not reachable''), 4)"
    by (simp add: logsFailHost_def demoHost_def)
  have c: "startProcess logsFailHost readLogCommand None 4 = (Inr readLogProc, 5)"
    by (simp add: logsFailHost_def demoHost_def demo_commands)
  have g: "getLogs logsFailHost readLogProc (setTimeout demoAmbient 3000 5) =
             (Inl (Thrown ''logs unavailable''), 3006)"
    by (simp add: logsFailHost_def demoHost_def demoAmbient_def)
  have o: "\<not> isGatewayFailure (Thrown ''logs unavailable'')"
    by (simp add: isGatewayFailure_def)
  from fresh_wait_failure_error[OF r s n] c g o
  show "outcome (ensureMoltbotGateway demoAmbient logsFailHost demoEnv (0, [])) =
          Inl (Error ''port 18789 not reachable'')"
    by blast
qed

text \<open>
  C6, as stated, fails: when the start of the command that reads the log file throws an
  \<open>Error\<close> whose message starts with \<open>Moltbot gateway failed\<close>, that error is thrown,
  not the error of the failed wait.
\<close>

theorem failed_log_read_can_replace_readiness_error:
  "waitForPort (spawnFailsHost (Error ''Moltbot gateway failed: sandbox is restarting''))
     freshProc 18789 ''tcp'' 180000 3 = (Inl (Error ''port 18789 not reachable''), 4)
   \<and> startProcess (spawnFailsHost (Error ''Moltbot gateway failed: sandbox is restarting''))
       readLogCommand None 4 =
       (Inl (Error ''Moltbot gateway failed: sandbox is restarting''), 5)
   \<and> outcome (ensureMoltbotGateway demoAmbient
                (spawnFailsHost (Error ''Moltbot gateway failed: sandbox is restarting''))
                demoEnv (0, [])) =
       Inl (Error ''Moltbot gateway failed: sandbox is restarting'')
   \<and> outcome (ensureMoltbotGateway demoAmbient
                (spawnFailsHost (Error ''Moltbot gateway failed: sandbox is restarting''))
                demoEnv (0, [])) \<noteq>
       Inl (Error ''port 18789 not reachable'')"
proof -
  let ?host = "spawnFailsHost (Error ''Moltbot gateway failed: sandbox is restarting'')"
  have w: "waitForPort ?host freshProc 18789 ''tcp'' 180000 3 =
             (Inl (Error ''port 18789 not reachable''), 4)"
    by (simp add: spawnFailsHost_def demoHost_def)
  have c: "startProcess ?host readLogCommand None 4 =
             (Inl (Error ''Moltbot gateway failed: sandbox is restarting''), 5)"
    by (simp add: spawnFailsHost_def demoHost_def demo_commands)
  have r: "reuseExisting demoAmbient ?host demoEnv (0, []) =
             (None, (2, [MountR2Storage, ListProcesses]))"
    unfolding spawnFailsHost_def by (rule demo_reach)
  have run: "outcome (ensureMoltbotGateway demoAmbient ?host demoEnv (0, [])) =
               Inl (Error ''Moltbot gateway failed: sandbox is restarting'')"
    using r
    by (simp add: ensureMoltbotGateway_def startNewGateway_def readStartupLog_def catchLogErr_def
          isGatewayFailure_def startsWith_def call_def emit_def Let_def outcome_def
          demoAmbient_def spawnFailsHost_def demoHost_def envOption_def demo_commands)
  have ne: "outcome (ensureMoltbotGateway demoAmbient ?host demoEnv (0, [])) \<noteq>
              Inl (Error ''port 18789 not reachable'')"
    by (simp add: run)
  show ?thesis
    by (intro conjI) (rule w, rule c, rule run, rule ne)
qed

section \<open>The access middleware\<close>

lemma extractJWT_truthy: "extractJWT c \<noteq> Some []"
  by (auto simp: extractJWT_def truthy_def Let_def split: option.splits list.splits if_splits)

lemma demo_jwt_header:
  "extractJWT (requestWith env [(''CF-Access-JWT-Assertion'', ''good.jwt'')]) = Some ''good.jwt''"
  by (simp add: extractJWT_def requestWith_def truthy_def)

lemma demo_jwt_cookie:
  "extractJWT (requestWith env [(''Cookie'', ''session=1; CF_Authorization=stale.jwt'')]) =
     Some ''stale.jwt''"
  by (simp add: extractJWT_def requestWith_def truthy_def startsWith_def trim_def isWhiteSpace_def)

lemma demo_jwt_none:
  "extractJWT (requestWith env [(''Cookie'', ''session=1'')]) = None"
  by (simp add: extractJWT_def requestWith_def truthy_def startsWith_def trim_def isWhiteSpace_def)

lemma trim_examples:
  "trim ([CHR 0xA0, CHR 0x20] @ ''CF_Authorization=x'' @ [CHR 0x09, CHR 0xA0]) =
     ''CF_Authorization=x''"
  "trim ''a b'' = ''a b''"
  "trim [CHR 0x85] = [CHR 0x85]"
  by (simp_all add: trim_def isWhiteSpace_def)

lemma demo_jwt_nbsp:
  "extractJWT (requestWith env
      [(''Cookie'', ''a=1;'' @ [CHR 0xA0] @ ''CF_Authorization=good.jwt'')]) = Some ''good.jwt''"
  by (simp add: extractJWT_def requestWith_def truthy_def startsWith_def trim_def isWhiteSpace_def)

text \<open>
  C9. When \<open>DEV_MODE\<close> or \<open>E2E_TEST_MODE\<close> is the string \<open>true\<close>, the middleware sets
  \<open>accessUser\<close> to the development user and returns \<open>next()\<close>, for every request, every
  option, every verifier and every other binding.
\<close>

theorem dev_mode_bypasses_auth:
  assumes "DEV_MODE (bindings c) = Some ''true'' \<or> E2E_TEST_MODE (bindings c) = Some ''true''"
  shows "createAccessMiddleware verifyAccessJWT options c =
           (Next,
            c\<lparr>accessUser := Some \<lparr>email = ''dev@localhost'', name = Some ''Dev User''\<rparr>\<rparr>,
            [])"
  using assms by (simp add: createAccessMiddleware_def isDevMode_def isE2ETestMode_def)

theorem dev_mode_bypasses_auth_witness:
  "createAccessMiddleware demoVerify \<lparr>type = json, redirectOnMissing = None\<rparr>
     (requestWith (accessEnv\<lparr>DEV_MODE := Some ''true''\<rparr>)
        [(''CF-Access-JWT-Assertion'', ''stale.jwt'')]) =
     (Next,
      (requestWith (accessEnv\<lparr>DEV_MODE := Some ''true''\<rparr>)
         [(''CF-Access-JWT-Assertion'', ''stale.jwt'')])
        \<lparr>accessUser := Some \<lparr>email = ''dev@localhost'', name = Some ''Dev User''\<rparr>\<rparr>,
      [])
   \<and> createAccessMiddleware demoVerify \<lparr>type = html, redirectOnMissing = Some True\<rparr>
       (requestWith (demoEnv\<lparr>E2E_TEST_MODE := Some ''true''\<rparr>) []) =
     (Next,
      (requestWith (demoEnv\<lparr>E2E_TEST_MODE := Some ''true''\<rparr>) [])
        \<lparr>accessUser := Some \<lparr>email = ''dev@localhost'', name = Some ''Dev User''\<rparr>\<rparr>,
      [])"
proof (intro conjI)
  let ?c = "requestWith (accessEnv\<lparr>DEV_MODE := Some ''true''\<rparr>)
              [(''CF-Access-JWT-Assertion'', ''stale.jwt'')]"
  have "DEV_MODE (bindings ?c) = Some ''true'' \<or> E2E_TEST_MODE (bindings ?c) = Some ''true''"
    by (simp add: requestWith_def)
  from dev_mode_bypasses_auth[OF this]
  show "createAccessMiddleware demoVerify \<lparr>type = json, redirectOnMissing = None\<rparr> ?c =
          (Next, ?c\<lparr>accessUser := Some \<lparr>email = ''dev@localhost'', name = Some ''Dev User''\<rparr>\<rparr>, [])" .
next
  let ?c = "requestWith (demoEnv\<lparr>E2E_TEST_MODE := Some ''true''\<rparr>) []"
  have "DEV_MODE (bindings ?c) = Some ''true'' \<or> E2E_TEST_MODE (bindings ?c) = Some ''true''"
    by (simp add: requestWith_def)
  from dev_mode_bypasses_auth[OF this]
  show "createAccessMiddleware demoVerify \<lparr>type = html, redirectOnMissing = Some True\<rparr> ?c =
          (Next, ?c\<lparr>accessUser := Some \<lparr>email = ''dev@localhost'', name = Some ''Dev User''\<rparr>\<rparr>, [])" .
qed

text \<open>
  C10. Outside dev and E2E mode, with \<open>CF_ACCESS_TEAM_DOMAIN\<close> and \<open>CF_ACCESS_AUD\<close> both
  set (defined and not empty, the test of line 70): the middleware returns \<open>next()\<close> exactly
  when a token is extracted and \<open>verifyAccessJWT\<close> accepts it; without a token it answers
  with the 302 redirect when the type is \<open>html\<close> and \<open>redirectOnMissing\<close> is set, and with
  401 otherwise; with a rejected token it answers with 401; it never hands the request to
  Basic Auth and never answers with another status.
\<close>

theorem access_configured_gates_next:
  assumes notDev: "\<not> isDevMode (bindings c)" "\<not> isE2ETestMode (bindings c)"
    and team: "CF_ACCESS_TEAM_DOMAIN (bindings c) = Some teamDomain" "teamDomain \<noteq> []"
    and aud: "CF_ACCESS_AUD (bindings c) = Some expectedAud" "expectedAud \<noteq> []"
  shows "(fst (createAccessMiddleware verifyAccessJWT options c) = Next \<longleftrightarrow>
            (\<exists>jwt payload. extractJWT c = Some jwt \<and>
                            verifyAccessJWT jwt teamDomain expectedAud = Inr payload))
         \<and> (extractJWT c = None \<longrightarrow>
              fst (createAccessMiddleware verifyAccessJWT options c) =
                (if type options = html \<and> redirectOnMissing options = Some True
                 then Respond (Redirect (''https://'' @ teamDomain) 302)
                 else if type options = json
                 then Respond (Json [(''error'', ''Unauthorized''), (''hint'', missingJwtHint)] 401)
                 else Respond (Html (missingJwtPage teamDomain) 401)))
         \<and> (\<forall>jwt err. extractJWT c = Some jwt \<and>
                        verifyAccessJWT jwt teamDomain expectedAud = Inl err \<longrightarrow>
              (\<exists>resp. fst (createAccessMiddleware verifyAccessJWT options c) = Respond resp \<and>
                      statusOf resp = 401))
         \<and> (\<forall>username password.
              fst (createAccessMiddleware verifyAccessJWT options c) \<noteq> BasicAuth username password)
         \<and> (\<forall>resp. fst (createAccessMiddleware verifyAccessJWT options c) = Respond resp \<longrightarrow>
              statusOf resp = 401 \<or> statusOf resp = 302)"
proof -
  have run: "createAccessMiddleware verifyAccessJWT options c =
               accessBranch verifyAccessJWT (type options)
                 (case redirectOnMissing options of None \<Rightarrow> False | Some b \<Rightarrow> b)
                 teamDomain expectedAud c"
    using assms by (simp add: createAccessMiddleware_def)
  have redirect: "(case redirectOnMissing options of None \<Rightarrow> False | Some b \<Rightarrow> b) \<longleftrightarrow>
                    redirectOnMissing options = Some True"
    by (cases "redirectOnMissing options") auto
  show ?thesis
  proof (cases "extractJWT c")
    case None
    then show ?thesis
      unfolding run redirect by (auto simp: accessBranch_def missingJwt_def)
  next
    case (Some jwt)
    then have "jwt \<noteq> []" using extractJWT_truthy[of c] by auto
    with Some show ?thesis
      unfolding run redirect
      by (cases "verifyAccessJWT jwt teamDomain expectedAud")
         (auto simp: accessBranch_def)
  qed
qed

lemma demo_access:
  "\<not> isDevMode (bindings (requestWith accessEnv headers))"
  "\<not> isE2ETestMode (bindings (requestWith accessEnv headers))"
  "CF_ACCESS_TEAM_DOMAIN (bindings (requestWith accessEnv headers)) = Some ''team.cloudflareaccess.com''"
  "''team.cloudflareaccess.com'' \<noteq> []"
  "CF_ACCESS_AUD (bindings (requestWith accessEnv headers)) = Some ''aud-1''"
  "''aud-1'' \<noteq> []"
  by (simp_all add: requestWith_def accessEnv_def isDevMode_def isE2ETestMode_def)

theorem access_configured_gates_next_witness:
  "fst (createAccessMiddleware demoVerify \<lparr>type = json, redirectOnMissing = None\<rparr>
          (requestWith accessEnv [(''CF-Access-JWT-Assertion'', ''good.jwt'')])) = Next
   \<and> (\<exists>resp. fst (createAccessMiddleware demoVerify \<lparr>type = html, redirectOnMissing = Some True\<rparr>
                    (requestWith accessEnv [(''Cookie'', ''session=1; CF_Authorization=stale.jwt'')])) =
               Respond resp \<and> statusOf resp = 401)
   \<and> fst (createAccessMiddleware demoVerify \<lparr>type = html, redirectOnMissing = Some True\<rparr>
            (requestWith accessEnv [(''Cookie'', ''session=1'')])) =
       Respond (Redirect ''https://team.cloudflareaccess.com'' 302)
   \<and> fst (createAccessMiddleware demoVerify \<lparr>type = json, redirectOnMissing = None\<rparr>
            (requestWith accessEnv [(''Cookie'', ''session=1'')])) =
       Respond (Json [(''error'', ''Unauthorized''), (''hint'', missingJwtHint)] 401)
   \<and> fst (createAccessMiddleware demoVerify \<lparr>type = json, redirectOnMissing = None\<rparr>
            (requestWith accessEnv
               [(''Cookie'', ''a=1;'' @ [CHR 0xA0] @ ''CF_Authorization=good.jwt'')])) = Next"
proof (intro conjI)
  have ok: "demoVerify ''good.jwt'' ''team.cloudflareaccess.com'' ''aud-1'' =
              Inr \<lparr>payload_email = ''alice@example.com'', payload_name = Some ''Alice''\<rparr>"
    by (simp add: demoVerify_def)
  from access_configured_gates_next[where c = "requestWith accessEnv [(''CF-Access-JWT-Assertion'', ''good.jwt'')]"
         and verifyAccessJWT = demoVerify and options = "\<lparr>type = json, redirectOnMissing = None\<rparr>",
         OF demo_access]
       demo_jwt_header[of accessEnv] ok
  show "fst (createAccessMiddleware demoVerify \<lparr>type = json, redirectOnMissing = None\<rparr>
          (requestWith accessEnv [(''CF-Access-JWT-Assertion'', ''good.jwt'')])) = Next"
    by blast
next
  have bad: "demoVerify ''stale.jwt'' ''team.cloudflareaccess.com'' ''aud-1'' = Inl (Error ''JWT expired'')"
    by (simp add: demoVerify_def)
  from access_configured_gates_next[where c = "requestWith accessEnv [(''Cookie'', ''session=1; CF_Authorization=stale.jwt'')]"
         and verifyAccessJWT = demoVerify and options = "\<lparr>type = html, redirectOnMissing = Some True\<rparr>",
         OF demo_access]
       demo_jwt_cookie[of accessEnv] bad
  show "\<exists>resp. fst (createAccessMiddleware demoVerify \<lparr>type = html, redirectOnMissing = Some True\<rparr>
                    (requestWith accessEnv [(''Cookie'', ''session=1; CF_Authorization=stale.jwt'')])) =
               Respond resp \<and> statusOf resp = 401"
    by blast
next
  from access_configured_gates_next[where c = "requestWith accessEnv [(''Cookie'', ''session=1'')]"
         and verifyAccessJWT = demoVerify and options = "\<lparr>type = html, redirectOnMissing = Some True\<rparr>",
         OF demo_access]
       demo_jwt_none[of accessEnv]
  show "fst (createAccessMiddleware demoVerify \<lparr>type = html, redirectOnMissing = Some True\<rparr>
            (requestWith accessEnv [(''Cookie'', ''session=1'')])) =
       Respond (Redirect ''https://team.cloudflareaccess.com'' 302)"
    by simp
next
  from access_configured_gates_next[where c = "requestWith accessEnv [(''Cookie'', ''session=1'')]"
         and verifyAccessJWT = demoVerify and options = "\<lparr>type = json, redirectOnMissing = None\<rparr>",
         OF demo_access]
       demo_jwt_none[of accessEnv]
  show "fst (createAccessMiddleware demoVerify \<lparr>type = json, redirectOnMissing = None\<rparr>
            (requestWith accessEnv [(''Cookie'', ''session=1'')])) =
       Respond (Json [(''error'', ''Unauthorized''), (''hint'', missingJwtHint)] 401)"
    by simp
next
  have ok: "demoVerify ''good.jwt'' ''team.cloudflareaccess.com'' ''aud-1'' =
              Inr \<lparr>payload_email = ''alice@example.com'', payload_name = Some ''Alice''\<rparr>"
    by (simp add: demoVerify_def)
  from access_configured_gates_next[where c = "requestWith accessEnv
           [(''Cookie'', ''a=1;'' @ [CHR 0xA0] @ ''CF_Authorization=good.jwt'')]"
         and verifyAccessJWT = demoVerify and options = "\<lparr>type = json, redirectOnMissing = None\<rparr>",
         OF demo_access]
       demo_jwt_nbsp[of accessEnv] ok
  show "fst (createAccessMiddleware demoVerify \<lparr>type = json, redirectOnMissing = None\<rparr>
            (requestWith accessEnv
               [(''Cookie'', ''a=1;'' @ [CHR 0xA0] @ ''CF_Authorization=good.jwt'')])) = Next"
    by blast
qed

end
